theory Spec2Isabelle
  imports Main "HOL-Library.Sublist"
begin

section \<open>Sentieon variant calling: command construction and invocation\<close>

text \<open>
  A shallow embedding of \<^verbatim>\<open>bcbio/variation/sentieon.py\<close>: the license export
  resolver, the interval resolver and the three callers (TNscope, TNhaplotyper,
  Haplotyper). The module is Python 2 (\<^verbatim>\<open>basestring\<close>); its strings are byte
  strings, modelled as \<^typ>\<open>string\<close>.
\<close>

subsection \<open>Python values\<close>

text \<open>
  The values that reach \<^verbatim>\<open>%s\<close> formatting and truth tests in this module: \<^verbatim>\<open>None\<close>,
  booleans, integers and strings. A configuration value is such an atom or a dictionary
  from string keys to atoms; the dictionary is an association list in the order in
  which \<^verbatim>\<open>items()\<close> yields its entries.
\<close>

datatype atom = ANone | ABool bool | AInt int | AStr string

datatype pyval = Atom atom | Dict "(string \<times> atom) list"

datatype region = RNone | RStr string | RTuple string int int

datatype error =
    IndexError
  | ValueError string
  | AssertionError string
  | AttributeError string
  | ExecutionError nat string

text \<open>Python truthiness (\<^verbatim>\<open>if x\<close>, \<^verbatim>\<open>not x\<close>, \<^verbatim>\<open>x and y\<close>).\<close>

fun truthy :: "atom \<Rightarrow> bool" where
  "truthy ANone = False"
| "truthy (ABool b) = b"
| "truthy (AInt i) = (i \<noteq> 0)"
| "truthy (AStr s) = (s \<noteq> [])"

fun truthy_val :: "pyval option \<Rightarrow> bool" where
  "truthy_val None = False"
| "truthy_val (Some (Atom a)) = truthy a"
| "truthy_val (Some (Dict kvs)) = (kvs \<noteq> [])"

fun truthy_region :: "region \<Rightarrow> bool" where
  "truthy_region RNone = False"
| "truthy_region (RStr s) = (s \<noteq> [])"
| "truthy_region (RTuple c s e) = True"

text \<open>\<^verbatim>\<open>str(x)\<close>, which is what \<^verbatim>\<open>"%s" % x\<close> and \<^verbatim>\<open>"{x}".format(...)\<close> insert.\<close>

fun str_nat :: "nat \<Rightarrow> string" where
  "str_nat n =
     (if n < 10 then [''0123456789'' ! n]
      else str_nat (n div 10) @ [''0123456789'' ! (n mod 10)])"

declare str_nat.simps [simp del]

fun py_str :: "atom \<Rightarrow> string" where
  "py_str ANone = ''None''"
| "py_str (ABool b) = (if b then ''True'' else ''False'')"
| "py_str (AInt i) = (if i < 0 then ''-'' @ str_nat (nat (- i)) else str_nat (nat i))"
| "py_str (AStr s) = s"

text \<open>\<^verbatim>\<open>str.upper()\<close> on a byte string in the C locale: ASCII letters only.\<close>

definition upper_char :: "char \<Rightarrow> char" where
  "upper_char c =
     (let n = (of_char c :: nat)
      in if 97 \<le> n \<and> n \<le> 122 then char_of (n - 32) else c)"

definition upper :: "string \<Rightarrow> string" where
  "upper s = map upper_char s"

text \<open>\<^verbatim>\<open>sep.join(xs)\<close>.\<close>

fun join :: "string \<Rightarrow> string list \<Rightarrow> string" where
  "join sep [] = []"
| "join sep [x] = x"
| "join sep (x # y # ys) = x @ sep @ join sep (y # ys)"

subsection \<open>Data model and collaborators\<close>

text \<open>
  A sample (\<^verbatim>\<open>data\<close>, an element of \<^verbatim>\<open>items\<close>) is a dictionary of which this module
  reads only \<^verbatim>\<open>data["config"]\<close>; the configuration object itself is opaque here and
  is handed to the collaborators.
\<close>

record 'c data =
  config :: 'c

text \<open>The pairing structure returned by \<^verbatim>\<open>vcfutils.get_paired_bams\<close>; any field may be \<^verbatim>\<open>None\<close>.\<close>

record paired =
  tumor_bam :: atom
  tumor_name :: atom
  normal_bam :: atom
  normal_name :: atom

text \<open>
  The world the callers act on: the regular files present on the filesystem, each with
  its size in bytes, and the log of the commands handed to the process runner, each
  with its label.
\<close>

record world =
  files :: "string \<rightharpoonup> nat"
  runs :: "(string \<times> string) list"

text \<open>
  The functions this module imports from the rest of bcbio are parameters of the
  model, one field each:
  \<^item> \<^verbatim>\<open>config_utils.get_resources(name, config)\<close>: the per-tool resource mapping;
  \<^item> \<^verbatim>\<open>utils.splitext_plus(path)\<close>: the pair (base, extension);
  \<^item> \<^verbatim>\<open>dd.get_variant_regions(data)\<close> and \<^verbatim>\<open>bedutils.merge_overlaps(in_file, data)\<close>:
    a BED file path or \<^verbatim>\<open>None\<close>;
  \<^item> \<^verbatim>\<open>shared.subset_variant_regions(variant_regions, region, out_file, items)\<close>:
    \<^verbatim>\<open>None\<close>, a path or a region;
  \<^item> \<^verbatim>\<open>bamprep.region_to_gatk(region)\<close>: the textual region;
  \<^item> \<^verbatim>\<open>vcfutils.get_paired_bams(align_bams, items)\<close>: a pairing or \<^verbatim>\<open>None\<close>;
  \<^item> \<open>tx_file\<close>: the temporary path that \<^verbatim>\<open>file_transaction(data, out_file)\<close> yields;
  \<^item> \<open>process\<close>: the external program: from the command line and the files present,
    its exit status and the files it writes.
\<close>

record 'c env =
  get_resources :: "string \<Rightarrow> 'c \<Rightarrow> (string \<rightharpoonup> pyval)"
  splitext_plus :: "string \<Rightarrow> string \<times> string"
  get_variant_regions :: "'c data \<Rightarrow> string option"
  merge_overlaps :: "string option \<Rightarrow> 'c data \<Rightarrow> string option"
  subset_variant_regions ::
    "string option \<Rightarrow> region \<Rightarrow> string \<Rightarrow> 'c data list \<Rightarrow> region"
  region_to_gatk :: "region \<Rightarrow> string"
  get_paired_bams :: "string list \<Rightarrow> 'c data list \<Rightarrow> paired option"
  tx_file :: "'c data \<Rightarrow> string \<Rightarrow> string"
  process :: "string \<Rightarrow> (string \<rightharpoonup> nat) \<Rightarrow> nat \<times> (string \<rightharpoonup> nat)"

text \<open>
  Modelled from the spec: \<^verbatim>\<open>utils.file_exists\<close>, the filesystem existence check
  ("given a path, reports whether a regular file is already present and
  non-empty/valid enough to skip recomputation"): the path is present and its size
  is not zero.
\<close>

definition file_exists :: "world \<Rightarrow> string \<Rightarrow> bool" where
  "file_exists w p = (case files w p of None \<Rightarrow> False | Some n \<Rightarrow> 0 < n)"

text \<open>\<^verbatim>\<open>os.path.isfile\<close>: a regular file is present at the path, of any size.\<close>

definition isfile :: "world \<Rightarrow> string \<Rightarrow> bool" where
  "isfile w p = (files w p \<noteq> None)"

text \<open>
  Modelled from the spec: \<^verbatim>\<open>do.run\<close>, the process runner ("given a formatted
  command-line string and a human-readable label, executes it in a shell ... and
  raises an error carrying the exit status ... on non-zero exit"). The call is logged,
  the files the process writes appear on the filesystem, replacing those of the same
  path, and a non-zero status is an execution error.
\<close>

definition do_run :: "'c env \<Rightarrow> string \<Rightarrow> string \<Rightarrow> world \<Rightarrow> (error + unit) \<times> world" where
  "do_run env cmd label w =
     (let (status, written) = process env cmd (files w);
          w' = w\<lparr>files := files w ++ written, runs := runs w @ [(cmd, label)]\<rparr>
      in if status \<noteq> 0 then (Inl (ExecutionError status cmd), w') else (Inr (), w'))"

text \<open>
  Modelled from the spec: \<^verbatim>\<open>file_transaction\<close>, the transactional output scope
  ("given a context and a final path, yields a temporary path; on normal exit,
  atomically renames temp\<rightarrow>final; on abnormal exit (exception/error), deletes the
  temporary artifact and leaves no final file"). The body of the \<^verbatim>\<open>with\<close> block is the
  function \<open>body\<close> of the temporary path; the rename happens when the body has left a
  file at the temporary path. On an error the temporary path is deleted and no final
  file is published: nothing but the temporary path is touched.
\<close>

definition file_transaction ::
  "'c env \<Rightarrow> 'c data \<Rightarrow> string \<Rightarrow> (string \<Rightarrow> world \<Rightarrow> (error + unit) \<times> world)
     \<Rightarrow> world \<Rightarrow> (error + unit) \<times> world" where
  "file_transaction env data0 out_file body w =
     (let tx_out_file = tx_file env data0 out_file
      in case body tx_out_file w of
           (Inl e, w') \<Rightarrow> (Inl e, w'\<lparr>files := (files w')(tx_out_file := None)\<rparr>)
         | (Inr u, w') \<Rightarrow>
             (Inr u,
              case files w' tx_out_file of
                Some n \<Rightarrow> w'\<lparr>files := ((files w')(tx_out_file := None))(out_file \<mapsto> n)\<rparr>
              | None \<Rightarrow> w'))"

subsection \<open>License export resolver\<close>

definition keyfile_message :: string where
  "keyfile_message =
     ''Need to set resources keyfile with URL:port of license server, local license file or ''
     @ ''environmental variables to export '' @ [CHR 0x0A]
     @ ''http://bcbio-nextgen.readthedocs.io/en/latest/contents/configuration.html#resources''"

text \<open>The loop \<^verbatim>\<open>for key, val in server.items(): exports += ...\<close>, with its accumulator.\<close>

fun export_loop :: "(string \<times> atom) list \<Rightarrow> string \<Rightarrow> string" where
  "export_loop [] exports = exports"
| "export_loop ((key, val) # rest) exports =
     export_loop rest (exports @ ''export '' @ upper key @ ''='' @ py_str val @ '' && '')"

definition license_export :: "'c env \<Rightarrow> 'c data \<Rightarrow> error + string" where
  "license_export env data0 =
     (let resources = get_resources env ''sentieon'' (config data0);
          server = resources ''keyfile''
      in if \<not> truthy_val server then Inl (ValueError keyfile_message)
         else case server of
                Some (Atom (AStr s)) \<Rightarrow> Inr (''export SENTIEON_LICENSE='' @ s @ '' && '')
              | Some (Dict kvs) \<Rightarrow> Inr (export_loop kvs [])
              | Some (Atom a) \<Rightarrow> Inl (AssertionError (py_str a))
              | None \<Rightarrow> Inl (ValueError keyfile_message))"

subsection \<open>Interval resolver\<close>

definition get_interval ::
  "'c env \<Rightarrow> world \<Rightarrow> string option \<Rightarrow> region \<Rightarrow> string \<Rightarrow> 'c data list \<Rightarrow> string" where
  "get_interval env w variant_regions region0 out_file items =
     (let target = subset_variant_regions env variant_regions region0 out_file items
      in if truthy_region target then
           (case target of
              RStr p \<Rightarrow>
                if isfile w p then ''--interval '' @ p
                else ''--interval '' @ region_to_gatk env target
            | _ \<Rightarrow> ''--interval '' @ region_to_gatk env target)
         else [])"

subsection \<open>The callers\<close>

text \<open>\<^verbatim>\<open>"--flag %s" % (assoc_files.get(key)) if key in assoc_files else ""\<close>.\<close>

definition assoc_flag :: "string \<Rightarrow> string \<Rightarrow> (string \<rightharpoonup> atom) \<Rightarrow> string" where
  "assoc_flag flag key assoc_files =
     (case assoc_files key of Some v \<Rightarrow> flag @ '' '' @ py_str v | None \<Rightarrow> [])"

definition tnscope_cmd ::
  "string \<Rightarrow> string \<Rightarrow> paired \<Rightarrow> string \<Rightarrow> string \<Rightarrow> string \<Rightarrow> string" where
  "tnscope_cmd license ref_file p interval dbsnp tx_out_file =
     license @ ''sentieon driver -t 1 -r '' @ ref_file @ '' ''
     @ ''-i '' @ py_str (tumor_bam p) @ '' -i '' @ py_str (normal_bam p) @ '' '' @ interval @ '' ''
     @ ''--algo TNscope ''
     @ ''--tumor_sample '' @ py_str (tumor_name p)
     @ '' --normal_sample '' @ py_str (normal_name p) @ '' ''
     @ dbsnp @ '' '' @ tx_out_file"

definition tnhaplotyper_cmd ::
  "string \<Rightarrow> string \<Rightarrow> paired \<Rightarrow> string \<Rightarrow> string \<Rightarrow> string \<Rightarrow> string \<Rightarrow> string" where
  "tnhaplotyper_cmd license ref_file p interval dbsnp cosmic tx_out_file =
     license @ ''sentieon driver -t 1 -r '' @ ref_file @ '' ''
     @ ''-i '' @ py_str (tumor_bam p) @ '' -i '' @ py_str (normal_bam p) @ '' '' @ interval @ '' ''
     @ ''--algo TNhaplotyper ''
     @ ''--tumor_sample '' @ py_str (tumor_name p)
     @ '' --normal_sample '' @ py_str (normal_name p) @ '' ''
     @ dbsnp @ '' '' @ cosmic @ '' '' @ tx_out_file"

definition haplotyper_cmd ::
  "string \<Rightarrow> string \<Rightarrow> string \<Rightarrow> string \<Rightarrow> string \<Rightarrow> string \<Rightarrow> string" where
  "haplotyper_cmd license ref_file bams interval dbsnp tx_out_file =
     license @ ''sentieon driver -t 1 -r '' @ ref_file @ '' ''
     @ bams @ '' '' @ interval @ '' --algo Haplotyper '' @ dbsnp @ '' '' @ tx_out_file"

text \<open>
  The first statement of each caller:
  \<^verbatim>\<open>if out_file is None: out_file = "%s-variants.vcf.gz" % utils.splitext_plus(align_bams[0])[0]\<close>;
  \<^verbatim>\<open>align_bams[0]\<close> raises IndexError on an empty list.
\<close>

definition default_out_file :: "'c env \<Rightarrow> string list \<Rightarrow> string option \<Rightarrow> error + string" where
  "default_out_file env align_bams out_file0 =
     (case out_file0 of
        Some f \<Rightarrow> Inr f
      | None \<Rightarrow>
          (case align_bams of
             [] \<Rightarrow> Inl IndexError
           | b # _ \<Rightarrow> Inr (fst (splitext_plus env b) @ ''-variants.vcf.gz'')))"

text \<open>The bodies of the three \<^verbatim>\<open>with file_transaction(...) as tx_out_file\<close> blocks.\<close>

definition tnscope_body ::
  "'c env \<Rightarrow> string list \<Rightarrow> 'c data list \<Rightarrow> 'c data \<Rightarrow> string \<Rightarrow> (string \<rightharpoonup> atom) \<Rightarrow> string
     \<Rightarrow> string \<Rightarrow> world \<Rightarrow> (error + unit) \<times> world" where
  "tnscope_body env align_bams items item0 ref_file assoc_files interval tx_out_file w =
     (case get_paired_bams env align_bams items of
        None \<Rightarrow> (Inl (AssertionError ''Require normal BAM for Sentieon TNscope''), w)
      | Some p \<Rightarrow>
          if \<not> truthy (normal_bam p)
          then (Inl (AssertionError ''Require normal BAM for Sentieon TNscope''), w)
          else
            let dbsnp = assoc_flag ''--dbsnp'' ''dbsnp'' assoc_files
            in case license_export env item0 of
                 Inl e \<Rightarrow> (Inl e, w)
               | Inr license \<Rightarrow>
                   do_run env (tnscope_cmd license ref_file p interval dbsnp tx_out_file)
                     ''Sentieon TNhaplotyper'' w)"

definition tnhaplotyper_body ::
  "'c env \<Rightarrow> string list \<Rightarrow> 'c data list \<Rightarrow> 'c data \<Rightarrow> string \<Rightarrow> (string \<rightharpoonup> atom) \<Rightarrow> string
     \<Rightarrow> string \<Rightarrow> world \<Rightarrow> (error + unit) \<times> world" where
  "tnhaplotyper_body env align_bams items item0 ref_file assoc_files interval tx_out_file w =
     (case get_paired_bams env align_bams items of
        None \<Rightarrow> (Inl (AttributeError ''normal_bam''), w)
      | Some p \<Rightarrow>
          if \<not> truthy (normal_bam p)
          then (Inl (AssertionError ''Require normal BAM for Sentieon TNhaplotyper''), w)
          else
            let dbsnp = assoc_flag ''--dbsnp'' ''dbsnp'' assoc_files;
                cosmic = assoc_flag ''--cosmic'' ''cosmic'' assoc_files
            in case license_export env item0 of
                 Inl e \<Rightarrow> (Inl e, w)
               | Inr license \<Rightarrow>
                   do_run env
                     (tnhaplotyper_cmd license ref_file p interval dbsnp cosmic tx_out_file)
                     ''Sentieon TNhaplotyper'' w)"

definition haplotyper_body ::
  "'c env \<Rightarrow> string list \<Rightarrow> 'c data \<Rightarrow> string \<Rightarrow> (string \<rightharpoonup> atom) \<Rightarrow> string
     \<Rightarrow> string \<Rightarrow> world \<Rightarrow> (error + unit) \<times> world" where
  "haplotyper_body env align_bams item0 ref_file assoc_files interval tx_out_file w =
     (let dbsnp = assoc_flag ''--dbsnp'' ''dbsnp'' assoc_files;
          bams = join '' '' (map (\<lambda>x. ''-i '' @ x) align_bams)
      in case license_export env item0 of
           Inl e \<Rightarrow> (Inl e, w)
         | Inr license \<Rightarrow>
             do_run env (haplotyper_cmd license ref_file bams interval dbsnp tx_out_file)
               ''Sentieon TNhaplotyper'' w)"

text \<open>
  The callers: resolve the output path, skip everything when it exists, otherwise read
  \<^verbatim>\<open>items[0]\<close> (IndexError on an empty list), resolve the interval and run the body
  inside the transaction; return the output path.
\<close>

definition run_tnscope ::
  "'c env \<Rightarrow> string list \<Rightarrow> 'c data list \<Rightarrow> string \<Rightarrow> (string \<rightharpoonup> atom) \<Rightarrow> region
     \<Rightarrow> string option \<Rightarrow> world \<Rightarrow> (error + string) \<times> world" where
  "run_tnscope env align_bams items ref_file assoc_files region0 out_file0 w =
     (case default_out_file env align_bams out_file0 of
        Inl e \<Rightarrow> (Inl e, w)
      | Inr out_file \<Rightarrow>
          if \<not> file_exists w out_file then
            (case items of
               [] \<Rightarrow> (Inl IndexError, w)
             | item0 # _ \<Rightarrow>
                 let variant_regions = merge_overlaps env (get_variant_regions env item0) item0;
                     interval = get_interval env w variant_regions region0 out_file items
                 in case file_transaction env item0 out_file
                           (tnscope_body env align_bams items item0 ref_file assoc_files interval) w of
                      (Inl e, w') \<Rightarrow> (Inl e, w')
                    | (Inr u, w') \<Rightarrow> (Inr out_file, w'))
          else (Inr out_file, w))"

definition run_tnhaplotyper ::
  "'c env \<Rightarrow> string list \<Rightarrow> 'c data list \<Rightarrow> string \<Rightarrow> (string \<rightharpoonup> atom) \<Rightarrow> region
     \<Rightarrow> string option \<Rightarrow> world \<Rightarrow> (error + string) \<times> world" where
  "run_tnhaplotyper env align_bams items ref_file assoc_files region0 out_file0 w =
     (case default_out_file env align_bams out_file0 of
        Inl e \<Rightarrow> (Inl e, w)
      | Inr out_file \<Rightarrow>
          if \<not> file_exists w out_file then
            (case items of
               [] \<Rightarrow> (Inl IndexError, w)
             | item0 # _ \<Rightarrow>
                 let variant_regions = merge_overlaps env (get_variant_regions env item0) item0;
                     interval = get_interval env w variant_regions region0 out_file items
                 in case file_transaction env item0 out_file
                           (tnhaplotyper_body env align_bams items item0 ref_file assoc_files interval) w of
                      (Inl e, w') \<Rightarrow> (Inl e, w')
                    | (Inr u, w') \<Rightarrow> (Inr out_file, w'))
          else (Inr out_file, w))"

definition run_haplotyper ::
  "'c env \<Rightarrow> string list \<Rightarrow> 'c data list \<Rightarrow> string \<Rightarrow> (string \<rightharpoonup> atom) \<Rightarrow> region
     \<Rightarrow> string option \<Rightarrow> world \<Rightarrow> (error + string) \<times> world" where
  "run_haplotyper env align_bams items ref_file assoc_files region0 out_file0 w =
     (case default_out_file env align_bams out_file0 of
        Inl e \<Rightarrow> (Inl e, w)
      | Inr out_file \<Rightarrow>
          if \<not> file_exists w out_file then
            (case items of
               [] \<Rightarrow> (Inl IndexError, w)
             | item0 # _ \<Rightarrow>
                 let variant_regions = merge_overlaps env (get_variant_regions env item0) item0;
                     interval = get_interval env w variant_regions region0 out_file items
                 in case file_transaction env item0 out_file
                           (haplotyper_body env align_bams item0 ref_file assoc_files interval) w of
                      (Inl e, w') \<Rightarrow> (Inl e, w')
                    | (Inr u, w') \<Rightarrow> (Inr out_file, w'))
          else (Inr out_file, w))"

text \<open>
  The tail common to the three callers once the output path is resolved and absent: the
  body inside the transaction, then \<^verbatim>\<open>return out_file\<close>. It serves to state lemmas about
  the callers.
\<close>

definition in_transaction ::
  "'c env \<Rightarrow> 'c data \<Rightarrow> string \<Rightarrow> (string \<Rightarrow> world \<Rightarrow> (error + unit) \<times> world) \<Rightarrow> world
     \<Rightarrow> (error + string) \<times> world" where
  "in_transaction env item0 out_file body w =
     (case file_transaction env item0 out_file body w of
        (Inl e, w') \<Rightarrow> (Inl e, w')
      | (Inr u, w') \<Rightarrow> (Inr out_file, w'))"


subsection \<open>An example environment\<close>

text \<open>
  A small concrete environment on which the theorems below are instantiated. The
  configuration is a table from tool names to resource entries; the extension splitter
  cuts at the first dot; there are no variant regions and the region passed by the
  caller is the reconciled one; the pairing, the exit status of the external program and
  the paths it writes are given.
\<close>

type_synonym example_config = "(string \<times> (string \<times> pyval) list) list"

definition stub_env ::
  "paired option \<Rightarrow> nat \<Rightarrow> (string \<rightharpoonup> nat) \<Rightarrow> example_config env" where
  "stub_env pairing status written =
     \<lparr> get_resources =
         (\<lambda>name cfg. case map_of cfg name of Some r \<Rightarrow> map_of r | None \<Rightarrow> Map.empty),
       splitext_plus =
         (\<lambda>p. (takeWhile (\<lambda>c. c \<noteq> CHR ''.'') p, dropWhile (\<lambda>c. c \<noteq> CHR ''.'') p)),
       get_variant_regions = (\<lambda>d. None),
       merge_overlaps = (\<lambda>v d. v),
       subset_variant_regions = (\<lambda>v r out items. r),
       region_to_gatk =
         (\<lambda>r. case r of
                 RTuple c s e \<Rightarrow> c @ '':'' @ py_str (AInt (s + 1)) @ ''-'' @ py_str (AInt e)
               | RStr s \<Rightarrow> s
               | RNone \<Rightarrow> ''None''),
       get_paired_bams = (\<lambda>bams items. pairing),
       tx_file = (\<lambda>d out. ''/tmp/tx'' @ out),
       process = (\<lambda>cmd fs. (status, written)) \<rparr>"

definition sample :: "pyval \<Rightarrow> example_config data" where
  "sample keyfile = \<lparr> config = [(''sentieon'', [(''keyfile'', keyfile)])] \<rparr>"

definition tumor_normal :: paired where
  "tumor_normal =
     \<lparr> tumor_bam = AStr ''/d/t.bam'', tumor_name = AStr ''T1'',
       normal_bam = AStr ''/d/n.bam'', normal_name = AStr ''N1'' \<rparr>"


definition example_haplotyper_cmd :: string where
  "example_haplotyper_cmd =
     ''export SENTIEON_LICENSE=lic:8990 && sentieon driver -t 1 -r /ref.fa ''
     @ ''-i /d/s1.bam -i /d/s2.bam  --algo Haplotyper --dbsnp /x/dbsnp.vcf ''
     @ ''/tmp/tx/d/s1-variants.vcf.gz''"

definition example_world :: world where
  "example_world = \<lparr>files = Map.empty, runs = []\<rparr>"

definition example_license :: string where
  "example_license = ''export SENTIEON_LICENSE=lic:8990 && ''"

definition tumor_only :: paired where
  "tumor_only =
     \<lparr> tumor_bam = AStr ''/d/t.bam'', tumor_name = AStr ''T1'',
       normal_bam = ANone, normal_name = ANone \<rparr>"

text \<open>A world in which a file of size zero is on disk at the given path.\<close>

definition stale_world :: "string \<Rightarrow> world" where
  "stale_world p = \<lparr>files = [p \<mapsto> 0], runs = []\<rparr>"

section \<open>Properties\<close>

subsection \<open>Evaluation of the example environment\<close>

lemma stub_env_sel:
  "get_resources (stub_env pairing status written) =
     (\<lambda>name cfg. case map_of cfg name of Some r \<Rightarrow> map_of r | None \<Rightarrow> Map.empty)"
  "splitext_plus (stub_env pairing status written) =
     (\<lambda>p. (takeWhile (\<lambda>c. c \<noteq> CHR ''.'') p, dropWhile (\<lambda>c. c \<noteq> CHR ''.'') p))"
  "get_variant_regions (stub_env pairing status written) = (\<lambda>d. None)"
  "merge_overlaps (stub_env pairing status written) = (\<lambda>v d. v)"
  "subset_variant_regions (stub_env pairing status written) = (\<lambda>v r out items. r)"
  "get_paired_bams (stub_env pairing status written) = (\<lambda>bams items. pairing)"
  "tx_file (stub_env pairing status written) = (\<lambda>d out. ''/tmp/tx'' @ out)"
  "process (stub_env pairing status written) = (\<lambda>cmd fs. (status, written))"
  by (simp_all add: stub_env_def)

lemma stub_region_to_gatk:
  "region_to_gatk (stub_env pairing status written) (RTuple c s e) =
     c @ '':'' @ py_str (AInt (s + 1)) @ ''-'' @ py_str (AInt e)"
  by (simp add: stub_env_def)

lemma stub_region_to_gatk_str:
  "region_to_gatk (stub_env pairing status written) (RStr s) = s"
  by (simp add: stub_env_def)

lemma upper_sentieon_license: "upper ''sentieon_license'' = ''SENTIEON_LICENSE''"
  by code_simp

lemma upper_lm_port: "upper ''lm_port'' = ''LM_PORT''"
  by code_simp

lemma str_nat_examples:
  "str_nat (Suc 0) = ''1''" "str_nat 1 = ''1''" "str_nat 100 = ''100''" "str_nat 8990 = ''8990''"
  by (simp_all add: str_nat.simps [of "Suc 0"] str_nat.simps [of 10] str_nat.simps [of 100]
        str_nat.simps [of 8] str_nat.simps [of 89] str_nat.simps [of 899] str_nat.simps [of 8990])

lemma py_str_examples:
  "py_str (AInt 1) = ''1''" "py_str (AInt 100) = ''100''" "py_str (AInt 8990) = ''8990''"
  by (simp_all add: str_nat_examples)

lemmas caller_defs = run_tnscope_def run_tnhaplotyper_def run_haplotyper_def

lemmas run_defs =
  caller_defs default_out_file_def file_exists_def isfile_def get_interval_def
  file_transaction_def tnscope_body_def tnhaplotyper_body_def haplotyper_body_def
  license_export_def assoc_flag_def do_run_def
  tnscope_cmd_def tnhaplotyper_cmd_def haplotyper_cmd_def

subsection \<open>License export\<close>

lemma export_loop_concat:
  "export_loop kvs acc =
     acc @ concat (map (\<lambda>(k, v). ''export '' @ upper k @ ''='' @ py_str v @ '' && '') kvs)"
  by (induction kvs arbitrary: acc) auto

text \<open>
  C1 (as amended). When the keyfile of the sentieon resources is a non-empty mapping,
  \<^verbatim>\<open>license_export\<close> returns the concatenation, in the iteration order of the mapping, of
  one statement \<^verbatim>\<open>export KEY=value && \<close> per entry, the key upper-cased and the value
  inserted as it is (its \<^verbatim>\<open>str\<close> rendering); the fragment ends with the separator
  \<^verbatim>\<open> && \<close>. For \<^verbatim>\<open>{"sentieon_license": "8990@srv"}\<close> this is
  \<^verbatim>\<open>export SENTIEON_LICENSE=8990@srv && \<close>: the value keeps its lower case.
\<close>

theorem license_export_mapping:
  assumes "get_resources env ''sentieon'' (config d) ''keyfile'' = Some (Dict kvs)"
    and "kvs \<noteq> []"
  shows "\<exists>r. license_export env d = Inr r
           \<and> r = concat (map (\<lambda>(k, v). ''export '' @ upper k @ ''='' @ py_str v @ '' && '') kvs)
           \<and> suffix '' && '' r"
proof -
  let ?r = "concat (map (\<lambda>(k, v). ''export '' @ upper k @ ''='' @ py_str v @ '' && '') kvs)"
  have "license_export env d = Inr ?r"
    using assms by (simp add: license_export_def export_loop_concat)
  moreover have "suffix '' && '' ?r"
  proof -
    obtain ys k v where "kvs = ys @ [(k, v)]"
      using assms(2) by (metis rev_exhaust surj_pair)
    then show ?thesis by (simp add: suffix_def)
  qed
  ultimately show ?thesis by simp
qed

theorem license_export_mapping_witness:
  "get_resources (stub_env None 0 Map.empty) ''sentieon''
     (config (sample (Dict [(''sentieon_license'', AStr ''8990@srv''), (''lm_port'', AInt 8990)])))
     ''keyfile''
     = Some (Dict [(''sentieon_license'', AStr ''8990@srv''), (''lm_port'', AInt 8990)])
   \<and> [(''sentieon_license'', AStr ''8990@srv''), (''lm_port'', AInt 8990)] \<noteq> []
   \<and> license_export (stub_env None 0 Map.empty)
       (sample (Dict [(''sentieon_license'', AStr ''8990@srv''), (''lm_port'', AInt 8990)]))
     = Inr ''export SENTIEON_LICENSE=8990@srv && export LM_PORT=8990 && ''"
  using license_export_mapping [of "stub_env None 0 Map.empty"
      "sample (Dict [(''sentieon_license'', AStr ''8990@srv''), (''lm_port'', AInt 8990)])"
      "[(''sentieon_license'', AStr ''8990@srv''), (''lm_port'', AInt 8990)]"]
  by (simp add: stub_env_sel sample_def upper_sentieon_license upper_lm_port
        py_str_examples del: py_str.simps(3))

theorem license_export_mapping_counterexample:
  "license_export (stub_env None 0 Map.empty) (sample (Dict [(''sentieon_license'', AStr ''8990@srv'')]))
     = Inr ''export SENTIEON_LICENSE=8990@srv && ''
   \<and> license_export (stub_env None 0 Map.empty) (sample (Dict [(''sentieon_license'', AStr ''8990@srv'')]))
     \<noteq> Inr ''export SENTIEON_LICENSE=8990@SRV && ''"
  by (simp add: license_export_def stub_env_sel sample_def upper_sentieon_license)

subsection \<open>Existing output\<close>

text \<open>
  C2 (as amended). When the resolved output path (the explicit one, or the one derived
  from the first alignment) passes the existence check \<^verbatim>\<open>utils.file_exists\<close>, that is,
  it is present and not empty, each of the three callers returns that path and leaves
  the world as it is: no file changes and the log of the process runner gets no entry.
\<close>

theorem existing_output_is_returned:
  assumes "f \<in> {run_tnscope, run_tnhaplotyper, run_haplotyper}"
    and "default_out_file env align_bams out_file0 = Inr out_file"
    and "file_exists w out_file"
  shows "f env align_bams items ref_file assoc_files region0 out_file0 w = (Inr out_file, w)"
  using assms by (auto simp: caller_defs)

theorem existing_output_is_returned_witness:
  "run_tnscope \<in> {run_tnscope, run_tnhaplotyper, run_haplotyper}
   \<and> default_out_file (stub_env None 0 Map.empty) [''/d/t.bam'', ''/d/n.bam''] None
       = Inr ''/d/t-variants.vcf.gz''
   \<and> file_exists \<lparr>files = [''/d/t-variants.vcf.gz'' \<mapsto> 4096], runs = []\<rparr> ''/d/t-variants.vcf.gz''
   \<and> run_tnscope (stub_env None 0 Map.empty) [''/d/t.bam'', ''/d/n.bam''] [] ''/ref.fa'' Map.empty RNone None
        \<lparr>files = [''/d/t-variants.vcf.gz'' \<mapsto> 4096], runs = []\<rparr>
      = (Inr ''/d/t-variants.vcf.gz'', \<lparr>files = [''/d/t-variants.vcf.gz'' \<mapsto> 4096], runs = []\<rparr>)"
  using existing_output_is_returned [of run_tnscope "stub_env None 0 Map.empty"
      "[''/d/t.bam'', ''/d/n.bam'']" None
      "''/d/t-variants.vcf.gz''" "\<lparr>files = [''/d/t-variants.vcf.gz'' \<mapsto> 4096], runs = []\<rparr>"
      "[]" "''/ref.fa''" Map.empty RNone]
  by (simp add: default_out_file_def stub_env_sel file_exists_def)

theorem existing_output_is_returned_counterexample:
  "isfile (stale_world ''/d/s1-variants.vcf.gz'') ''/d/s1-variants.vcf.gz''
   \<and> runs (stale_world ''/d/s1-variants.vcf.gz'') = []
   \<and> runs (snd (run_haplotyper (stub_env None 0 [''/tmp/tx/d/s1-variants.vcf.gz'' \<mapsto> 4096])
        [''/d/s1.bam'', ''/d/s2.bam''] [sample (Atom (AStr ''lic:8990''))] ''/ref.fa''
        [''dbsnp'' \<mapsto> AStr ''/x/dbsnp.vcf''] RNone None (stale_world ''/d/s1-variants.vcf.gz'')))
      = [(example_haplotyper_cmd, ''Sentieon TNhaplotyper'')]"
  by (simp add: run_defs Let_def stub_env_sel sample_def example_haplotyper_cmd_def stale_world_def)

subsection \<open>Interval resolver\<close>

text \<open>
  C5. With \<open>target\<close> the result of the region subsetting: a falsy target gives the empty
  fragment; a (non-empty) string naming a file on disk gives \<^verbatim>\<open>--interval <path>\<close>; any
  other truthy target gives \<^verbatim>\<open>--interval \<close> followed by the region formatter's rendering
  of the target.
\<close>

theorem get_interval_cases:
  assumes "target = subset_variant_regions env variant_regions region0 out_file items"
  shows "(\<not> truthy_region target \<longrightarrow>
            get_interval env w variant_regions region0 out_file items = [])
       \<and> (\<forall>p. truthy_region target \<and> target = RStr p \<and> isfile w p \<longrightarrow>
            get_interval env w variant_regions region0 out_file items = ''--interval '' @ p)
       \<and> (truthy_region target \<and> \<not> (\<exists>p. target = RStr p \<and> isfile w p) \<longrightarrow>
            get_interval env w variant_regions region0 out_file items
              = ''--interval '' @ region_to_gatk env target)"
proof (cases target)
  case RNone
  with assms show ?thesis by (simp add: get_interval_def Let_def)
next
  case (RStr s)
  with assms [symmetric] show ?thesis by (simp add: get_interval_def Let_def)
next
  case (RTuple c s e)
  with assms [symmetric] show ?thesis by (simp add: get_interval_def Let_def)
qed

theorem get_interval_cases_witness:
  "get_interval (stub_env None 0 Map.empty) \<lparr>files = [''/r/regions.bed'' \<mapsto> 120], runs = []\<rparr>
       None RNone ''/d/out.vcf.gz'' [] = []
   \<and> get_interval (stub_env None 0 Map.empty) \<lparr>files = [''/r/regions.bed'' \<mapsto> 120], runs = []\<rparr>
       None (RStr ''/r/regions.bed'') ''/d/out.vcf.gz'' [] = ''--interval /r/regions.bed''
   \<and> get_interval (stub_env None 0 Map.empty) \<lparr>files = [''/r/regions.bed'' \<mapsto> 120], runs = []\<rparr>
       None (RTuple ''chr1'' 0 100) ''/d/out.vcf.gz'' [] = ''--interval chr1:1-100''"
proof -
  let ?E = "stub_env None 0 Map.empty"
  let ?W = "\<lparr>files = [''/r/regions.bed'' \<mapsto> 120], runs = []\<rparr>"
  have sub: "\<And>r. r = subset_variant_regions ?E None r ''/d/out.vcf.gz'' []"
    by (simp add: stub_env_sel)
  have a: "get_interval ?E ?W None RNone ''/d/out.vcf.gz'' [] = []"
    using get_interval_cases [OF sub [of RNone], of ?W] by simp
  have "isfile ?W ''/r/regions.bed''"
    by (simp add: isfile_def)
  then have b: "get_interval ?E ?W None (RStr ''/r/regions.bed'') ''/d/out.vcf.gz'' []
                  = ''--interval '' @ ''/r/regions.bed''"
    using get_interval_cases [OF sub [of "RStr ''/r/regions.bed''"], of ?W] by simp
  have c: "get_interval ?E ?W None (RTuple ''chr1'' 0 100) ''/d/out.vcf.gz'' []
             = ''--interval '' @ region_to_gatk ?E (RTuple ''chr1'' 0 100)"
    using get_interval_cases [OF sub [of "RTuple ''chr1'' 0 100"], of ?W] by simp
  have d: "region_to_gatk ?E (RTuple ''chr1'' 0 100) = ''chr1:1-100''"
    by (simp add: stub_region_to_gatk py_str_examples del: py_str.simps(3))
  show ?thesis using a b c d by simp
qed

subsection \<open>The callers, step by step\<close>

lemma example_haplotyper_run:
  "run_haplotyper (stub_env None 0 [''/tmp/tx/d/s1-variants.vcf.gz'' \<mapsto> 4096])
     [''/d/s1.bam'', ''/d/s2.bam''] [sample (Atom (AStr ''lic:8990''))] ''/ref.fa''
     [''dbsnp'' \<mapsto> AStr ''/x/dbsnp.vcf''] RNone None \<lparr>files = Map.empty, runs = []\<rparr>
   = (Inr ''/d/s1-variants.vcf.gz'',
      \<lparr>files = [''/d/s1-variants.vcf.gz'' \<mapsto> 4096],
       runs = [(example_haplotyper_cmd,
                ''Sentieon TNhaplotyper'')]\<rparr>)"
  by (simp add: run_defs Let_def stub_env_sel sample_def example_haplotyper_cmd_def)




lemma license_export_no_keyfile:
  assumes "\<not> truthy_val (get_resources env ''sentieon'' (config item0) ''keyfile'')"
  shows "license_export env item0 = Inl (ValueError keyfile_message)"
  using assms by (simp add: license_export_def)

lemma body_no_keyfile:
  assumes "\<not> truthy_val (get_resources env ''sentieon'' (config item0) ''keyfile'')"
  shows "\<exists>e. tnscope_body env bams items item0 ref assoc interval tx w = (Inl e, w)"
    and "\<exists>e. tnhaplotyper_body env bams items item0 ref assoc interval tx w = (Inl e, w)"
    and "haplotyper_body env bams item0 ref assoc interval tx w = (Inl (ValueError keyfile_message), w)"
  using license_export_no_keyfile [OF assms]
  by (auto simp: tnscope_body_def tnhaplotyper_body_def haplotyper_body_def Let_def
      split: option.splits)

lemma file_transaction_error:
  assumes "body (tx_file env d out) w = (Inl e, w)"
  shows "file_transaction env d out body w = (Inl e, w\<lparr>files := (files w)(tx_file env d out := None)\<rparr>)"
  using assms by (simp add: file_transaction_def Let_def)


lemma do_run_world:
  "snd (do_run env cmd label w)
     = w\<lparr>files := files w ++ snd (process env cmd (files w)), runs := runs w @ [(cmd, label)]\<rparr>"
  "fst (do_run env cmd label w)
     = (if fst (process env cmd (files w)) \<noteq> 0
        then Inl (ExecutionError (fst (process env cmd (files w))) cmd) else Inr ())"
  by (simp_all add: do_run_def Let_def split_def)

lemma in_transaction_error:
  assumes "body (tx_file env item0 out) w = (Inl e, w)"
  shows "in_transaction env item0 out body w
           = (Inl e, w\<lparr>files := (files w)(tx_file env item0 out := None)\<rparr>)"
  using assms by (simp add: in_transaction_def file_transaction_def Let_def)



lemma caller_frame:
  assumes "default_out_file env align_bams out_file0 = Inr out"
    and "\<not> file_exists w out"
  shows "run_tnscope env align_bams (item0 # rest) ref_file assoc_files region0 out_file0 w
           = in_transaction env item0 out
               (tnscope_body env align_bams (item0 # rest) item0 ref_file assoc_files
                  (get_interval env w (merge_overlaps env (get_variant_regions env item0) item0)
                     region0 out (item0 # rest))) w"
    and "run_tnhaplotyper env align_bams (item0 # rest) ref_file assoc_files region0 out_file0 w
           = in_transaction env item0 out
               (tnhaplotyper_body env align_bams (item0 # rest) item0 ref_file assoc_files
                  (get_interval env w (merge_overlaps env (get_variant_regions env item0) item0)
                     region0 out (item0 # rest))) w"
    and "run_haplotyper env align_bams (item0 # rest) ref_file assoc_files region0 out_file0 w
           = in_transaction env item0 out
               (haplotyper_body env align_bams item0 ref_file assoc_files
                  (get_interval env w (merge_overlaps env (get_variant_regions env item0) item0)
                     region0 out (item0 # rest))) w"
  using assms by (simp_all add: caller_defs in_transaction_def Let_def)

lemma caller_no_run:
  assumes "f \<in> {run_tnscope, run_tnhaplotyper, run_haplotyper}"
    and "runs (snd (f env align_bams items ref_file assoc_files region0 out_file0 w)) \<noteq> runs w"
  shows "\<exists>out item0 rest. default_out_file env align_bams out_file0 = Inr out
           \<and> \<not> file_exists w out \<and> items = item0 # rest"
  using assms
  by (cases "default_out_file env align_bams out_file0"; cases items;
      cases "file_exists w (projr (default_out_file env align_bams out_file0))")
     (auto simp: caller_defs)


lemma in_transaction_runs:
  "runs (snd (in_transaction env item0 out body w)) = runs (snd (body (tx_file env item0 out) w))"
  by (simp add: in_transaction_def file_transaction_def Let_def
      split: prod.splits sum.splits option.splits)

lemma do_run_runs: "runs (snd (do_run env cmd label w)) = runs w @ [(cmd, label)]"
  by (simp add: do_run_world)

lemma haplotyper_run_command:
  assumes "run_haplotyper env align_bams (item0 # rest) ref_file assoc_files region0 out_file0 w = (r, w')"
    and "runs w' = runs w @ [(cmd, label)]"
    and "default_out_file env align_bams out_file0 = Inr out"
  shows "\<exists>license. license_export env item0 = Inr license
           \<and> cmd = haplotyper_cmd license ref_file (join '' '' (map (\<lambda>x. ''-i '' @ x) align_bams))
                     (get_interval env w (merge_overlaps env (get_variant_regions env item0) item0)
                        region0 out (item0 # rest))
                     (assoc_flag ''--dbsnp'' ''dbsnp'' assoc_files) (tx_file env item0 out)"
proof -
  have ne: "runs (snd (run_haplotyper env align_bams (item0 # rest) ref_file assoc_files region0 out_file0 w))
              \<noteq> runs w"
    using assms(1,2) by simp
  have "run_haplotyper \<in> {run_tnscope, run_tnhaplotyper, run_haplotyper}" by simp
  from caller_no_run [OF this ne] assms(3) have absent: "\<not> file_exists w out" by auto
  note fr = caller_frame(3) [OF assms(3) absent, of item0 rest ref_file assoc_files region0]
  show ?thesis
  proof (cases "license_export env item0")
    case (Inl e)
    then have "runs (snd (run_haplotyper env align_bams (item0 # rest) ref_file assoc_files region0 out_file0 w)) = runs w"
      unfolding fr in_transaction_runs by (simp add: haplotyper_body_def Let_def)
    with ne show ?thesis by simp
  next
    case (Inr license)
    then have "runs (snd (run_haplotyper env align_bams (item0 # rest) ref_file assoc_files region0 out_file0 w))
       = runs w @ [(haplotyper_cmd license ref_file (join '' '' (map (\<lambda>x. ''-i '' @ x) align_bams))
                     (get_interval env w (merge_overlaps env (get_variant_regions env item0) item0)
                        region0 out (item0 # rest))
                     (assoc_flag ''--dbsnp'' ''dbsnp'' assoc_files) (tx_file env item0 out),
                   ''Sentieon TNhaplotyper'')]"
      unfolding fr in_transaction_runs by (simp add: haplotyper_body_def Let_def do_run_runs)
    with assms(1,2) Inr show ?thesis by simp
  qed
qed

lemma tnhaplotyper_run_command:
  assumes "run_tnhaplotyper env align_bams (item0 # rest) ref_file assoc_files region0 out_file0 w = (r, w')"
    and "runs w' = runs w @ [(cmd, label)]"
    and "default_out_file env align_bams out_file0 = Inr out"
  shows "\<exists>license p. license_export env item0 = Inr license
           \<and> get_paired_bams env align_bams (item0 # rest) = Some p
           \<and> cmd = tnhaplotyper_cmd license ref_file p
                     (get_interval env w (merge_overlaps env (get_variant_regions env item0) item0)
                        region0 out (item0 # rest))
                     (assoc_flag ''--dbsnp'' ''dbsnp'' assoc_files)
                     (assoc_flag ''--cosmic'' ''cosmic'' assoc_files) (tx_file env item0 out)"
proof -
  have ne: "runs (snd (run_tnhaplotyper env align_bams (item0 # rest) ref_file assoc_files region0 out_file0 w))
              \<noteq> runs w"
    using assms(1,2) by simp
  have "run_tnhaplotyper \<in> {run_tnscope, run_tnhaplotyper, run_haplotyper}" by simp
  from caller_no_run [OF this ne] assms(3) have absent: "\<not> file_exists w out" by auto
  note fr = caller_frame(2) [OF assms(3) absent, of item0 rest ref_file assoc_files region0]
  have "runs (snd (run_tnhaplotyper env align_bams (item0 # rest) ref_file assoc_files region0 out_file0 w))
          = runs w @ [(cmd, label)]"
    using assms(1,2) by simp
  then show ?thesis
    unfolding fr in_transaction_runs
    by (auto simp: tnhaplotyper_body_def Let_def do_run_runs split: option.splits sum.splits if_splits)
qed

lemma tnscope_run_command:
  assumes "run_tnscope env align_bams (item0 # rest) ref_file assoc_files region0 out_file0 w = (r, w')"
    and "runs w' = runs w @ [(cmd, label)]"
    and "default_out_file env align_bams out_file0 = Inr out"
  shows "\<exists>license p. license_export env item0 = Inr license
           \<and> get_paired_bams env align_bams (item0 # rest) = Some p
           \<and> cmd = tnscope_cmd license ref_file p
                     (get_interval env w (merge_overlaps env (get_variant_regions env item0) item0)
                        region0 out (item0 # rest))
                     (assoc_flag ''--dbsnp'' ''dbsnp'' assoc_files) (tx_file env item0 out)"
proof -
  have ne: "runs (snd (run_tnscope env align_bams (item0 # rest) ref_file assoc_files region0 out_file0 w))
              \<noteq> runs w"
    using assms(1,2) by simp
  have "run_tnscope \<in> {run_tnscope, run_tnhaplotyper, run_haplotyper}" by simp
  from caller_no_run [OF this ne] assms(3) have absent: "\<not> file_exists w out" by auto
  note fr = caller_frame(1) [OF assms(3) absent, of item0 rest ref_file assoc_files region0]
  have "runs (snd (run_tnscope env align_bams (item0 # rest) ref_file assoc_files region0 out_file0 w))
          = runs w @ [(cmd, label)]"
    using assms(1,2) by simp
  then show ?thesis
    unfolding fr in_transaction_runs
    by (auto simp: tnscope_body_def Let_def do_run_runs split: option.splits sum.splits if_splits)
qed

lemma join_space_concat:
  "xs \<noteq> [] \<Longrightarrow> join '' '' (map f xs) @ '' '' = concat (map (\<lambda>x. f x @ '' '') xs)"
proof (induction xs)
  case Nil
  then show ?case by simp
next
  case (Cons x xs)
  then show ?case by (cases xs) simp_all
qed

lemma sublist_dbsnp_in_cmd:
  "sublist dbsnp (tnscope_cmd license ref_file p interval dbsnp tx)"
  "sublist dbsnp (tnhaplotyper_cmd license ref_file p interval dbsnp cosmic tx)"
  "sublist cosmic (tnhaplotyper_cmd license ref_file p interval dbsnp cosmic tx)"
  "sublist dbsnp (haplotyper_cmd license ref_file bams interval dbsnp tx)"
proof -
  show "sublist dbsnp (tnscope_cmd license ref_file p interval dbsnp tx)"
    unfolding sublist_def tnscope_cmd_def
    by (rule exI [of _ "license @ ''sentieon driver -t 1 -r '' @ ref_file @ '' ''
          @ ''-i '' @ py_str (tumor_bam p) @ '' -i '' @ py_str (normal_bam p) @ '' '' @ interval @ '' ''
          @ ''--algo TNscope '' @ ''--tumor_sample '' @ py_str (tumor_name p)
          @ '' --normal_sample '' @ py_str (normal_name p) @ '' ''"],
        rule exI [of _ "'' '' @ tx"], simp)
  show "sublist dbsnp (tnhaplotyper_cmd license ref_file p interval dbsnp cosmic tx)"
    unfolding sublist_def tnhaplotyper_cmd_def
    by (rule exI [of _ "license @ ''sentieon driver -t 1 -r '' @ ref_file @ '' ''
          @ ''-i '' @ py_str (tumor_bam p) @ '' -i '' @ py_str (normal_bam p) @ '' '' @ interval @ '' ''
          @ ''--algo TNhaplotyper '' @ ''--tumor_sample '' @ py_str (tumor_name p)
          @ '' --normal_sample '' @ py_str (normal_name p) @ '' ''"],
        rule exI [of _ "'' '' @ cosmic @ '' '' @ tx"], simp)
  show "sublist cosmic (tnhaplotyper_cmd license ref_file p interval dbsnp cosmic tx)"
    unfolding sublist_def tnhaplotyper_cmd_def
    by (rule exI [of _ "license @ ''sentieon driver -t 1 -r '' @ ref_file @ '' ''
          @ ''-i '' @ py_str (tumor_bam p) @ '' -i '' @ py_str (normal_bam p) @ '' '' @ interval @ '' ''
          @ ''--algo TNhaplotyper '' @ ''--tumor_sample '' @ py_str (tumor_name p)
          @ '' --normal_sample '' @ py_str (normal_name p) @ '' '' @ dbsnp @ '' ''"],
        rule exI [of _ "'' '' @ tx"], simp)
  show "sublist dbsnp (haplotyper_cmd license ref_file bams interval dbsnp tx)"
    unfolding sublist_def haplotyper_cmd_def
    by (rule exI [of _ "license @ ''sentieon driver -t 1 -r '' @ ref_file @ '' ''
          @ bams @ '' '' @ interval @ '' --algo Haplotyper ''"],
        rule exI [of _ "'' '' @ tx"], simp)
qed

lemma assoc_flag_Some: "assoc_files key = Some v \<Longrightarrow> assoc_flag flag key assoc_files = flag @ '' '' @ py_str v"
  by (simp add: assoc_flag_def)

lemma assoc_flag_None: "assoc_files key = None \<Longrightarrow> assoc_flag flag key assoc_files = []"
  by (simp add: assoc_flag_def)

lemma example_license_export:
  "license_export (stub_env pairing status written) (sample (Atom (AStr ''lic:8990''))) = Inr example_license"
  by (simp add: license_export_def stub_env_sel sample_def example_license_def)

lemma example_tnhaplotyper_run:
  "run_tnhaplotyper (stub_env (Some tumor_normal) 0 [''/tmp/tx/d/t-variants.vcf.gz'' \<mapsto> 4096])
     [''/d/t.bam'', ''/d/n.bam''] [sample (Atom (AStr ''lic:8990''))] ''/ref.fa''
     assoc_files (RStr ''chr1'') None example_world
   = (Inr ''/d/t-variants.vcf.gz'',
      \<lparr>files = [''/d/t-variants.vcf.gz'' \<mapsto> 4096],
       runs = [(tnhaplotyper_cmd example_license ''/ref.fa'' tumor_normal ''--interval chr1''
                  (assoc_flag ''--dbsnp'' ''dbsnp'' assoc_files)
                  (assoc_flag ''--cosmic'' ''cosmic'' assoc_files)
                  ''/tmp/tx/d/t-variants.vcf.gz'',
                ''Sentieon TNhaplotyper'')]\<rparr>)"
  by (simp add: run_tnhaplotyper_def default_out_file_def file_exists_def isfile_def
        get_interval_def file_transaction_def tnhaplotyper_body_def do_run_def Let_def
        stub_env_sel stub_region_to_gatk_str example_license_export example_world_def
        tumor_normal_def)

lemma example_unpaired_runs:
  "run_tnhaplotyper (stub_env None 0 Map.empty) [''/d/n.bam''] [sample (Atom (AStr ''lic:8990''))]
     ''/ref.fa'' Map.empty RNone None example_world
   = (Inl (AttributeError ''normal_bam''), example_world)"
  "run_tnscope (stub_env None 0 Map.empty) [''/d/n.bam''] [sample (Atom (AStr ''lic:8990''))]
     ''/ref.fa'' Map.empty RNone None example_world
   = (Inl (AssertionError ''Require normal BAM for Sentieon TNscope''), example_world)"
  by (simp_all add: caller_defs default_out_file_def file_exists_def isfile_def
        get_interval_def file_transaction_def tnhaplotyper_body_def tnscope_body_def Let_def
        stub_env_sel example_world_def)

lemma example_tnhaplotyper_cmd_value:
  "tnhaplotyper_cmd example_license ''/ref.fa'' tumor_normal ''--interval chr1''
     (assoc_flag ''--dbsnp'' ''dbsnp'' [''dbsnp'' \<mapsto> AStr ''/x/--cosmic.vcf''])
     (assoc_flag ''--cosmic'' ''cosmic'' [''dbsnp'' \<mapsto> AStr ''/x/--cosmic.vcf''])
     ''/tmp/tx/d/t-variants.vcf.gz''
   = ''export SENTIEON_LICENSE=lic:8990 && sentieon driver -t 1 -r /ref.fa ''
     @ ''-i /d/t.bam -i /d/n.bam --interval chr1 --algo TNhaplotyper ''
     @ ''--tumor_sample T1 --normal_sample N1 --dbsnp /x/--cosmic.vcf  ''
     @ ''/tmp/tx/d/t-variants.vcf.gz''"
  by (simp add: tnhaplotyper_cmd_def assoc_flag_def example_license_def tumor_normal_def)




subsection \<open>Derived output path\<close>



subsection \<open>Missing license configuration\<close>

text \<open>
  C8. When the sentieon resources have no keyfile, or a falsy one, \<^verbatim>\<open>license_export\<close>
  raises the configuration ValueError; whatever caller is used, the log of the process
  runner is unchanged, the caller returns a path only when the output already existed,
  and the germline caller, which has no earlier check, ends in that ValueError whenever
  the output is absent.
\<close>

theorem missing_keyfile_starts_no_process:
  assumes "f \<in> {run_tnscope, run_tnhaplotyper, run_haplotyper}"
    and "\<not> truthy_val (get_resources env ''sentieon'' (config item0) ''keyfile'')"
  shows "license_export env item0 = Inl (ValueError keyfile_message)
       \<and> runs (snd (f env align_bams (item0 # rest) ref_file assoc_files region0 out_file0 w)) = runs w
       \<and> (\<forall>p. fst (f env align_bams (item0 # rest) ref_file assoc_files region0 out_file0 w) = Inr p
              \<longrightarrow> file_exists w p)
       \<and> (\<forall>p. default_out_file env align_bams out_file0 = Inr p \<and> \<not> file_exists w p
              \<longrightarrow> fst (run_haplotyper env align_bams (item0 # rest) ref_file assoc_files region0 out_file0 w)
                    = Inl (ValueError keyfile_message))"
proof -
  note nk = body_no_keyfile [OF assms(2)]
  have ft: "\<exists>e. file_transaction env item0 out
              (tnscope_body env align_bams (item0 # rest) item0 ref_file assoc_files interval) w
            = (Inl e, w\<lparr>files := (files w)(tx_file env item0 out := None)\<rparr>)"
           "\<exists>e. file_transaction env item0 out
              (tnhaplotyper_body env align_bams (item0 # rest) item0 ref_file assoc_files interval) w
            = (Inl e, w\<lparr>files := (files w)(tx_file env item0 out := None)\<rparr>)"
           "file_transaction env item0 out
              (haplotyper_body env align_bams item0 ref_file assoc_files interval) w
            = (Inl (ValueError keyfile_message), w\<lparr>files := (files w)(tx_file env item0 out := None)\<rparr>)"
    for out interval
    using nk file_transaction_error by metis+
  show ?thesis
  proof (cases "default_out_file env align_bams out_file0")
    case (Inl e)
    with assms(1) license_export_no_keyfile [OF assms(2)] show ?thesis
      by (auto simp: caller_defs)
  next
    case (Inr out)
    show ?thesis
    proof (cases "file_exists w out")
      case True
      with Inr assms(1) license_export_no_keyfile [OF assms(2)] show ?thesis
        by (auto simp: caller_defs)
    next
      case False
      obtain e1 e2 where
        "file_transaction env item0 out
           (tnscope_body env align_bams (item0 # rest) item0 ref_file assoc_files
              (get_interval env w (merge_overlaps env (get_variant_regions env item0) item0)
                 region0 out (item0 # rest))) w
         = (Inl e1, w\<lparr>files := (files w)(tx_file env item0 out := None)\<rparr>)"
        "file_transaction env item0 out
           (tnhaplotyper_body env align_bams (item0 # rest) item0 ref_file assoc_files
              (get_interval env w (merge_overlaps env (get_variant_regions env item0) item0)
                 region0 out (item0 # rest))) w
         = (Inl e2, w\<lparr>files := (files w)(tx_file env item0 out := None)\<rparr>)"
        using ft(1,2) by metis
      with False Inr assms(1) license_export_no_keyfile [OF assms(2)] ft(3) show ?thesis
        by (auto simp: caller_defs Let_def)
    qed
  qed
qed

theorem missing_keyfile_starts_no_process_witness:
  "run_tnscope \<in> {run_tnscope, run_tnhaplotyper, run_haplotyper}
   \<and> \<not> truthy_val (get_resources (stub_env (Some tumor_normal) 0 Map.empty) ''sentieon''
          (config \<lparr>config = [(''sentieon'', [(''cores'', Atom (AInt 8))])]\<rparr>) ''keyfile'')
   \<and> license_export (stub_env (Some tumor_normal) 0 Map.empty)
        \<lparr>config = [(''sentieon'', [(''cores'', Atom (AInt 8))])]\<rparr>
      = Inl (ValueError keyfile_message)
   \<and> runs (snd (run_tnscope (stub_env (Some tumor_normal) 0 Map.empty) [''/d/t.bam'', ''/d/n.bam'']
        [\<lparr>config = [(''sentieon'', [(''cores'', Atom (AInt 8))])]\<rparr>] ''/ref.fa'' Map.empty RNone None
        \<lparr>files = Map.empty, runs = []\<rparr>)) = []"
proof -
  have h1: "run_tnscope \<in> {run_tnscope, run_tnhaplotyper, run_haplotyper}" by simp
  have h2: "\<not> truthy_val (get_resources (stub_env (Some tumor_normal) 0 Map.empty) ''sentieon''
          (config \<lparr>config = [(''sentieon'', [(''cores'', Atom (AInt 8))])]\<rparr>) ''keyfile'')"
    by (simp add: stub_env_sel)
  from missing_keyfile_starts_no_process [OF h1 h2, of "[''/d/t.bam'', ''/d/n.bam'']" "[]"
      "''/ref.fa''" Map.empty RNone None "\<lparr>files = Map.empty, runs = []\<rparr>"]
  show ?thesis using h1 h2 by simp
qed

subsection \<open>Failure of the external process\<close>




subsection \<open>Missing normal sample\<close>

text \<open>
  C3 (as amended). For a call of a paired caller whose resolved output does not pass the
  existence check, on a non-empty sample list: when the pairing has no normal BAM, and
  for TNscope also when there is no pairing at all, the call ends in the assertion error
  of that caller, the log of the process runner is unchanged and no final output is
  produced: afterwards the output path does not pass the existence check and is absent
  if it was absent before.
\<close>

theorem missing_normal_raises_before_process:
  assumes "default_out_file env align_bams out_file0 = Inr out"
    and "\<not> file_exists w out"
    and "items = item0 # rest"
  shows "((case get_paired_bams env align_bams items of
             None \<Rightarrow> True | Some p \<Rightarrow> \<not> truthy (normal_bam p)) \<longrightarrow>
          fst (run_tnscope env align_bams items ref_file assoc_files region0 out_file0 w)
            = Inl (AssertionError ''Require normal BAM for Sentieon TNscope'')
          \<and> runs (snd (run_tnscope env align_bams items ref_file assoc_files region0 out_file0 w))
              = runs w
          \<and> \<not> file_exists
                (snd (run_tnscope env align_bams items ref_file assoc_files region0 out_file0 w)) out
          \<and> (\<not> isfile w out \<longrightarrow>
               \<not> isfile
                  (snd (run_tnscope env align_bams items ref_file assoc_files region0 out_file0 w))
                  out))
       \<and> ((case get_paired_bams env align_bams items of
             None \<Rightarrow> False | Some p \<Rightarrow> \<not> truthy (normal_bam p)) \<longrightarrow>
          fst (run_tnhaplotyper env align_bams items ref_file assoc_files region0 out_file0 w)
            = Inl (AssertionError ''Require normal BAM for Sentieon TNhaplotyper'')
          \<and> runs (snd (run_tnhaplotyper env align_bams items ref_file assoc_files region0 out_file0 w))
              = runs w
          \<and> \<not> file_exists
                (snd (run_tnhaplotyper env align_bams items ref_file assoc_files region0 out_file0 w))
                out
          \<and> (\<not> isfile w out \<longrightarrow>
               \<not> isfile
                  (snd (run_tnhaplotyper env align_bams items ref_file assoc_files region0 out_file0 w))
                  out))"
proof -
  have absent: "\<not> file_exists (w\<lparr>files := (files w)(tx := None)\<rparr>) out"
    "\<not> isfile w out \<longrightarrow> \<not> isfile (w\<lparr>files := (files w)(tx := None)\<rparr>) out" for tx
    using assms(2) by (auto simp: file_exists_def isfile_def)
  have 1: "tnscope_body env align_bams items item0 ref_file assoc_files interval tx w
             = (Inl (AssertionError ''Require normal BAM for Sentieon TNscope''), w)"
    if "case get_paired_bams env align_bams items of None \<Rightarrow> True | Some p \<Rightarrow> \<not> truthy (normal_bam p)"
    for interval tx
    using that by (simp add: tnscope_body_def split: option.splits)
  have 2: "tnhaplotyper_body env align_bams items item0 ref_file assoc_files interval tx w
             = (Inl (AssertionError ''Require normal BAM for Sentieon TNhaplotyper''), w)"
    if "case get_paired_bams env align_bams items of None \<Rightarrow> False | Some p \<Rightarrow> \<not> truthy (normal_bam p)"
    for interval tx
    using that by (simp add: tnhaplotyper_body_def split: option.splits)
  show ?thesis
    unfolding assms(3) caller_frame(1,2) [OF assms(1,2)]
    using absent
      in_transaction_error [where body = "tnscope_body env align_bams (item0 # rest) item0 ref_file assoc_files
          (get_interval env w (merge_overlaps env (get_variant_regions env item0) item0)
             region0 out (item0 # rest))" and env = env and ?item0.0 = item0 and out = out and w = w,
        OF 1 [unfolded assms(3)]]
      in_transaction_error [where body = "tnhaplotyper_body env align_bams (item0 # rest) item0 ref_file assoc_files
          (get_interval env w (merge_overlaps env (get_variant_regions env item0) item0)
             region0 out (item0 # rest))" and env = env and ?item0.0 = item0 and out = out and w = w,
        OF 2 [unfolded assms(3)]]
    by simp
qed

theorem missing_normal_raises_before_process_witness:
  "default_out_file (stub_env None 0 Map.empty) [''/d/n.bam''] None = Inr ''/d/n-variants.vcf.gz''
   \<and> \<not> file_exists example_world ''/d/n-variants.vcf.gz''
   \<and> (case get_paired_bams (stub_env None 0 Map.empty) [''/d/n.bam''] [sample (Atom (AStr ''lic:8990''))] of
         None \<Rightarrow> True | Some p \<Rightarrow> \<not> truthy (normal_bam p))
   \<and> fst (run_tnscope (stub_env None 0 Map.empty) [''/d/n.bam''] [sample (Atom (AStr ''lic:8990''))]
          ''/ref.fa'' Map.empty RNone None example_world)
       = Inl (AssertionError ''Require normal BAM for Sentieon TNscope'')
   \<and> default_out_file (stub_env (Some tumor_only) 0 Map.empty) [''/d/t.bam''] None = Inr ''/d/t-variants.vcf.gz''
   \<and> \<not> file_exists example_world ''/d/t-variants.vcf.gz''
   \<and> (case get_paired_bams (stub_env (Some tumor_only) 0 Map.empty) [''/d/t.bam'']
              [sample (Atom (AStr ''lic:8990''))] of
         None \<Rightarrow> False | Some p \<Rightarrow> \<not> truthy (normal_bam p))
   \<and> fst (run_tnhaplotyper (stub_env (Some tumor_only) 0 Map.empty) [''/d/t.bam'']
          [sample (Atom (AStr ''lic:8990''))] ''/ref.fa'' Map.empty RNone None example_world)
       = Inl (AssertionError ''Require normal BAM for Sentieon TNhaplotyper'')"
proof -
  let ?items = "[sample (Atom (AStr ''lic:8990''))]"
  have a1: "default_out_file (stub_env None 0 Map.empty) [''/d/n.bam''] None = Inr ''/d/n-variants.vcf.gz''"
    by (simp add: default_out_file_def stub_env_sel)
  have a2: "\<not> file_exists example_world ''/d/n-variants.vcf.gz''"
    by (simp add: file_exists_def example_world_def)
  have a3: "?items = sample (Atom (AStr ''lic:8990'')) # []" by simp
  have a4: "case get_paired_bams (stub_env None 0 Map.empty) [''/d/n.bam''] ?items of
              None \<Rightarrow> True | Some p \<Rightarrow> \<not> truthy (normal_bam p)"
    by (simp add: stub_env_sel)
  have b1: "default_out_file (stub_env (Some tumor_only) 0 Map.empty) [''/d/t.bam''] None
              = Inr ''/d/t-variants.vcf.gz''"
    by (simp add: default_out_file_def stub_env_sel)
  have b2: "\<not> file_exists example_world ''/d/t-variants.vcf.gz''"
    by (simp add: file_exists_def example_world_def)
  have b4: "case get_paired_bams (stub_env (Some tumor_only) 0 Map.empty) [''/d/t.bam''] ?items of
              None \<Rightarrow> False | Some p \<Rightarrow> \<not> truthy (normal_bam p)"
    by (simp add: stub_env_sel tumor_only_def)
  note i1 = missing_normal_raises_before_process
    [where env = "stub_env None 0 Map.empty" and align_bams = "[''/d/n.bam'']" and ?out_file0.0 = None
       and out = "''/d/n-variants.vcf.gz''" and w = example_world and items = ?items
       and ?item0.0 = "sample (Atom (AStr ''lic:8990''))" and rest = "[]"
       and ref_file = "''/ref.fa''" and assoc_files = Map.empty and ?region0.0 = RNone,
     OF a1 a2 a3]
  note i2 = missing_normal_raises_before_process
    [where env = "stub_env (Some tumor_only) 0 Map.empty" and align_bams = "[''/d/t.bam'']"
       and ?out_file0.0 = None
       and out = "''/d/t-variants.vcf.gz''" and w = example_world and items = ?items
       and ?item0.0 = "sample (Atom (AStr ''lic:8990''))" and rest = "[]"
       and ref_file = "''/ref.fa''" and assoc_files = Map.empty and ?region0.0 = RNone,
     OF b1 b2 a3]
  show ?thesis using a1 a2 a4 b1 b2 b4 i1 i2 by blast
qed

theorem missing_normal_raises_before_process_counterexample:
  "get_paired_bams (stub_env None 0 Map.empty) [''/d/n.bam''] [sample (Atom (AStr ''lic:8990''))] = None
   \<and> run_tnscope (stub_env None 0 Map.empty) [''/d/n.bam''] [sample (Atom (AStr ''lic:8990''))]
        ''/ref.fa'' Map.empty RNone None \<lparr>files = [''/d/n-variants.vcf.gz'' \<mapsto> 4096], runs = []\<rparr>
      = (Inr ''/d/n-variants.vcf.gz'', \<lparr>files = [''/d/n-variants.vcf.gz'' \<mapsto> 4096], runs = []\<rparr>)"
  by (simp add: stub_env_sel run_tnscope_def default_out_file_def file_exists_def)

subsection \<open>Flags of the germline command\<close>

text \<open>
  C9. When \<^verbatim>\<open>run_haplotyper\<close> has handed a command to the process runner for a
  non-empty alignment list, that command is the license fragment,
  \<^verbatim>\<open>sentieon driver -t 1 -r <ref> \<close>, then one fragment \<^verbatim>\<open>-i <path> \<close> per alignment
  file in the order of the list, then the interval fragment,
  \<^verbatim>\<open> --algo Haplotyper \<close>, the dbsnp fragment and the temporary output path.
\<close>

theorem haplotyper_command:
  assumes "run_haplotyper env align_bams (item0 # rest) ref_file assoc_files region0 out_file0 w = (r, w')"
    and "runs w' = runs w @ [(cmd, label)]"
    and "default_out_file env align_bams out_file0 = Inr out"
    and "align_bams \<noteq> []"
  shows "\<exists>license. license_export env item0 = Inr license
           \<and> cmd = license @ ''sentieon driver -t 1 -r '' @ ref_file @ '' ''
                   @ concat (map (\<lambda>x. ''-i '' @ x @ '' '') align_bams)
                   @ get_interval env w (merge_overlaps env (get_variant_regions env item0) item0)
                       region0 out (item0 # rest)
                   @ '' --algo Haplotyper ''
                   @ (case assoc_files ''dbsnp'' of Some v \<Rightarrow> ''--dbsnp '' @ py_str v | None \<Rightarrow> [])
                   @ '' '' @ tx_file env item0 out"
proof -
  from haplotyper_run_command [OF assms(1-3)]
  obtain license where lic: "license_export env item0 = Inr license"
    and cmd: "cmd = haplotyper_cmd license ref_file (join '' '' (map (\<lambda>x. ''-i '' @ x) align_bams))
                     (get_interval env w (merge_overlaps env (get_variant_regions env item0) item0)
                        region0 out (item0 # rest))
                     (assoc_flag ''--dbsnp'' ''dbsnp'' assoc_files) (tx_file env item0 out)"
    by blast
  have j: "join '' '' (map (\<lambda>x. ''-i '' @ x) align_bams) @ ('' '' @ rest')
         = concat (map (\<lambda>x. ''-i '' @ x @ '' '') align_bams) @ rest'" for rest'
  proof -
    have "join '' '' (map (\<lambda>x. ''-i '' @ x) align_bams) @ ('' '' @ rest')
            = (join '' '' (map (\<lambda>x. ''-i '' @ x) align_bams) @ '' '') @ rest'"
      by (simp only: append_assoc)
    also have "\<dots> = concat (map (\<lambda>x. (''-i '' @ x) @ '' '') align_bams) @ rest'"
      by (simp only: join_space_concat [OF assms(4)])
    also have "\<dots> = concat (map (\<lambda>x. ''-i '' @ x @ '' '') align_bams) @ rest'"
      by (simp only: append_assoc)
    finally show ?thesis .
  qed
  have d: "assoc_flag ''--dbsnp'' ''dbsnp'' assoc_files
             = (case assoc_files ''dbsnp'' of Some v \<Rightarrow> ''--dbsnp '' @ py_str v | None \<Rightarrow> [])"
    by (simp add: assoc_flag_def split: option.splits)
  have "cmd = license @ ''sentieon driver -t 1 -r '' @ ref_file @ '' ''
                   @ concat (map (\<lambda>x. ''-i '' @ x @ '' '') align_bams)
                   @ get_interval env w (merge_overlaps env (get_variant_regions env item0) item0)
                       region0 out (item0 # rest)
                   @ '' --algo Haplotyper ''
                   @ (case assoc_files ''dbsnp'' of Some v \<Rightarrow> ''--dbsnp '' @ py_str v | None \<Rightarrow> [])
                   @ '' '' @ tx_file env item0 out"
    unfolding cmd haplotyper_cmd_def d j by (rule refl)
  with lic show ?thesis by blast
qed

theorem haplotyper_command_witness:
  "run_haplotyper (stub_env None 0 [''/tmp/tx/d/s1-variants.vcf.gz'' \<mapsto> 4096])
     [''/d/s1.bam'', ''/d/s2.bam''] [sample (Atom (AStr ''lic:8990''))] ''/ref.fa''
     [''dbsnp'' \<mapsto> AStr ''/x/dbsnp.vcf''] RNone None \<lparr>files = Map.empty, runs = []\<rparr>
    = (Inr ''/d/s1-variants.vcf.gz'',
       \<lparr>files = [''/d/s1-variants.vcf.gz'' \<mapsto> 4096],
        runs = [(example_haplotyper_cmd, ''Sentieon TNhaplotyper'')]\<rparr>)
   \<and> [''/d/s1.bam'', ''/d/s2.bam''] \<noteq> []
   \<and> example_haplotyper_cmd
       = ''export SENTIEON_LICENSE=lic:8990 && '' @ ''sentieon driver -t 1 -r '' @ ''/ref.fa'' @ '' ''
         @ concat (map (\<lambda>x. ''-i '' @ x @ '' '') [''/d/s1.bam'', ''/d/s2.bam''])
         @ [] @ '' --algo Haplotyper '' @ ''--dbsnp /x/dbsnp.vcf'' @ '' ''
         @ ''/tmp/tx/d/s1-variants.vcf.gz''"
proof -
  let ?E = "stub_env None 0 [''/tmp/tx/d/s1-variants.vcf.gz'' \<mapsto> 4096]"
  let ?A = "[''dbsnp'' \<mapsto> AStr ''/x/dbsnp.vcf'']"
  let ?item = "sample (Atom (AStr ''lic:8990''))"
  let ?w = "\<lparr>files = Map.empty, runs = []\<rparr>"
  let ?w' = "\<lparr>files = [''/d/s1-variants.vcf.gz'' \<mapsto> 4096],
              runs = [(example_haplotyper_cmd, ''Sentieon TNhaplotyper'')]\<rparr>"
  have h1: "run_haplotyper ?E [''/d/s1.bam'', ''/d/s2.bam''] (?item # []) ''/ref.fa'' ?A RNone None ?w
              = (Inr ''/d/s1-variants.vcf.gz'', ?w')"
    by (rule example_haplotyper_run)
  have h2: "runs ?w' = runs ?w @ [(example_haplotyper_cmd, ''Sentieon TNhaplotyper'')]" by simp
  have h3: "default_out_file ?E [''/d/s1.bam'', ''/d/s2.bam''] None = Inr ''/d/s1-variants.vcf.gz''"
    by (simp add: default_out_file_def stub_env_sel)
  have h4: "[''/d/s1.bam'', ''/d/s2.bam''] \<noteq> []" by simp
  note inst = haplotyper_command
    [where env = ?E and align_bams = "[''/d/s1.bam'', ''/d/s2.bam'']" and ?item0.0 = ?item
       and rest = "[]" and ref_file = "''/ref.fa''" and assoc_files = ?A and ?region0.0 = RNone
       and ?out_file0.0 = None and w = ?w and r = "Inr ''/d/s1-variants.vcf.gz''" and w' = ?w'
       and cmd = example_haplotyper_cmd and label = "''Sentieon TNhaplotyper''"
       and out = "''/d/s1-variants.vcf.gz''", OF h1 h2 h3 h4]
  have lic: "license_export ?E ?item = Inr ''export SENTIEON_LICENSE=lic:8990 && ''"
    by (simp add: example_license_export example_license_def)
  have iv: "get_interval ?E ?w (merge_overlaps ?E (get_variant_regions ?E ?item) ?item) RNone
              ''/d/s1-variants.vcf.gz'' [?item] = []"
    by (simp add: get_interval_def stub_env_sel)
  have tx: "tx_file ?E ?item ''/d/s1-variants.vcf.gz'' = ''/tmp/tx/d/s1-variants.vcf.gz''"
    by (simp add: stub_env_sel)
  have db: "(case ?A ''dbsnp'' of Some v \<Rightarrow> ''--dbsnp '' @ py_str v | None \<Rightarrow> [])
              = ''--dbsnp /x/dbsnp.vcf''"
    by simp
  from inst have "example_haplotyper_cmd
       = ''export SENTIEON_LICENSE=lic:8990 && '' @ ''sentieon driver -t 1 -r '' @ ''/ref.fa'' @ '' ''
         @ concat (map (\<lambda>x. ''-i '' @ x @ '' '') [''/d/s1.bam'', ''/d/s2.bam''])
         @ [] @ '' --algo Haplotyper '' @ ''--dbsnp /x/dbsnp.vcf'' @ '' ''
         @ ''/tmp/tx/d/s1-variants.vcf.gz''"
    unfolding lic iv tx db by blast
  with h1 h4 show ?thesis by simp
qed

subsection \<open>Flags from the associated files\<close>

lemma dbsnp_flag_emitted:
  assumes "f \<in> {run_tnscope, run_tnhaplotyper, run_haplotyper}"
    and "f env align_bams items ref_file assoc_files region0 out_file0 w = (r, w')"
    and "runs w' = runs w @ [(cmd, label)]"
    and "assoc_files ''dbsnp'' = Some v"
  shows "sublist (''--dbsnp '' @ py_str v) cmd"
proof -
  have "runs (snd (f env align_bams items ref_file assoc_files region0 out_file0 w)) \<noteq> runs w"
    using assms(2,3) by simp
  from caller_no_run [OF assms(1) this]
  obtain out item0 rest where out: "default_out_file env align_bams out_file0 = Inr out"
    and items: "items = item0 # rest"
    by blast
  have flag: "assoc_flag ''--dbsnp'' ''dbsnp'' assoc_files = ''--dbsnp '' @ py_str v"
    using assms(4) by (simp add: assoc_flag_def)
  consider "f = run_tnscope" | "f = run_tnhaplotyper" | "f = run_haplotyper"
    using assms(1) by auto
  then have "sublist (assoc_flag ''--dbsnp'' ''dbsnp'' assoc_files) cmd"
  proof cases
    case 1
    from tnscope_run_command [OF assms(2) [unfolded 1 items] assms(3) out]
    obtain license p where "cmd = tnscope_cmd license ref_file p
        (get_interval env w (merge_overlaps env (get_variant_regions env item0) item0)
           region0 out (item0 # rest))
        (assoc_flag ''--dbsnp'' ''dbsnp'' assoc_files) (tx_file env item0 out)"
      by blast
    then show ?thesis by (simp only: sublist_dbsnp_in_cmd)
  next
    case 2
    from tnhaplotyper_run_command [OF assms(2) [unfolded 2 items] assms(3) out]
    obtain license p where "cmd = tnhaplotyper_cmd license ref_file p
        (get_interval env w (merge_overlaps env (get_variant_regions env item0) item0)
           region0 out (item0 # rest))
        (assoc_flag ''--dbsnp'' ''dbsnp'' assoc_files)
        (assoc_flag ''--cosmic'' ''cosmic'' assoc_files) (tx_file env item0 out)"
      by blast
    then show ?thesis by (simp only: sublist_dbsnp_in_cmd)
  next
    case 3
    from haplotyper_run_command [OF assms(2) [unfolded 3 items] assms(3) out]
    obtain license where "cmd = haplotyper_cmd license ref_file
        (join '' '' (map (\<lambda>x. ''-i '' @ x) align_bams))
        (get_interval env w (merge_overlaps env (get_variant_regions env item0) item0)
           region0 out (item0 # rest))
        (assoc_flag ''--dbsnp'' ''dbsnp'' assoc_files) (tx_file env item0 out)"
      by blast
    then show ?thesis by (simp only: sublist_dbsnp_in_cmd)
  qed
  then show ?thesis unfolding flag .
qed

lemma cosmic_flag_emitted:
  assumes "run_tnhaplotyper env align_bams items ref_file assoc_files region0 out_file0 w = (r, w')"
    and "runs w' = runs w @ [(cmd, label)]"
    and "assoc_files ''cosmic'' = Some v"
  shows "sublist (''--cosmic '' @ py_str v) cmd"
proof -
  have "runs (snd (run_tnhaplotyper env align_bams items ref_file assoc_files region0 out_file0 w))
          \<noteq> runs w"
    using assms(1,2) by simp
  moreover have "run_tnhaplotyper \<in> {run_tnscope, run_tnhaplotyper, run_haplotyper}" by simp
  ultimately obtain out item0 rest where out: "default_out_file env align_bams out_file0 = Inr out"
    and items: "items = item0 # rest"
    using caller_no_run [where f = run_tnhaplotyper] by blast
  have flag: "assoc_flag ''--cosmic'' ''cosmic'' assoc_files = ''--cosmic '' @ py_str v"
    using assms(3) by (simp add: assoc_flag_def)
  from tnhaplotyper_run_command [OF assms(1) [unfolded items] assms(2) out]
  obtain license p where "cmd = tnhaplotyper_cmd license ref_file p
      (get_interval env w (merge_overlaps env (get_variant_regions env item0) item0)
         region0 out (item0 # rest))
      (assoc_flag ''--dbsnp'' ''dbsnp'' assoc_files)
      (assoc_flag ''--cosmic'' ''cosmic'' assoc_files) (tx_file env item0 out)"
    by blast
  then have "sublist (assoc_flag ''--cosmic'' ''cosmic'' assoc_files) cmd"
    by (simp only: sublist_dbsnp_in_cmd)
  then show ?thesis unfolding flag .
qed



subsection \<open>Absent flags of the TNhaplotyper command\<close>

lemma sublist_across_space:
  assumes "CHR '' '' \<notin> set u" and "u \<noteq> []"
  shows "sublist u (a @ '' '' @ b) \<longleftrightarrow> sublist u a \<or> sublist u b"
proof
  assume "sublist u (a @ '' '' @ b)"
  then consider "sublist u a" | "sublist u (CHR '' '' # b)"
    | u1 u2 where "u = u1 @ u2" "suffix u1 a" "prefix u2 (CHR '' '' # b)"
    by (auto simp: sublist_append)
  then show "sublist u a \<or> sublist u b"
  proof cases
    case 1
    then show ?thesis ..
  next
    case 2
    then have "prefix u (CHR '' '' # b) \<or> sublist u b"
      by (simp add: sublist_Cons_right)
    moreover have "\<not> prefix u (CHR '' '' # b)"
      using assms by (cases u) auto
    ultimately show ?thesis by blast
  next
    case 3
    show ?thesis
    proof (cases u2)
      case Nil
      with 3 have "suffix u a" by simp
      then show ?thesis by (auto simp: suffix_def)
    next
      case (Cons c cs)
      with 3(3) have "c = CHR '' ''" by simp
      with Cons 3(1) assms(1) show ?thesis by simp
    qed
  qed
next
  assume "sublist u a \<or> sublist u b"
  then show "sublist u (a @ '' '' @ b)"
    by (auto simp: sublist_append sublist_Cons_right)
qed

lemma sublist_join_space:
  assumes "CHR '' '' \<notin> set u" and "u \<noteq> []"
  shows "sublist u (join '' '' xs) \<longleftrightarrow> (\<exists>x\<in>set xs. sublist u x)"
proof (induction xs)
  case Nil
  then show ?case using assms(2) by simp
next
  case (Cons x xs)
  note IH = Cons.IH
  show ?case
  proof (cases xs)
    case Nil
    then show ?thesis by simp
  next
    case more: (Cons y ys)
    have "sublist u (join '' '' (x # y # ys)) \<longleftrightarrow> sublist u x \<or> sublist u (join '' '' (y # ys))"
      using sublist_across_space [OF assms, of x "join '' '' (y # ys)"] by simp
    with IH show ?thesis unfolding more by simp
  qed
qed

lemma tnhaplotyper_cmd_tokens:
  "tnhaplotyper_cmd license ref_file p interval dbsnp cosmic tx =
     join '' ''
       [license @ ''sentieon'', ''driver'', ''-t'', ''1'', ''-r'', ref_file,
        ''-i'', py_str (tumor_bam p), ''-i'', py_str (normal_bam p), interval,
        ''--algo'', ''TNhaplotyper'', ''--tumor_sample'', py_str (tumor_name p),
        ''--normal_sample'', py_str (normal_name p), dbsnp, cosmic, tx]"
  by (simp add: tnhaplotyper_cmd_def)

lemma license_export_ends_with_space:
  assumes "license_export env d = Inr license"
  shows "\<exists>l. license = l @ '' ''"
proof -
  have loop: "kvs \<noteq> [] \<Longrightarrow> \<exists>l. export_loop kvs [] = l @ '' ''" for kvs
  proof -
    assume "kvs \<noteq> []"
    then obtain ys k v where "kvs = ys @ [(k, v)]"
      by (metis rev_exhaust surj_pair)
    then have "export_loop kvs [] =
      (concat (map (\<lambda>(k, v). ''export '' @ upper k @ ''='' @ py_str v @ '' && '') ys)
         @ ''export '' @ upper k @ ''='' @ py_str v @ '' &&'') @ '' ''"
      by (simp add: export_loop_concat)
    then show ?thesis by blast
  qed
  have str: "\<exists>l. ''export SENTIEON_LICENSE='' @ s @ '' && '' = l @ '' ''" for s
    by (rule exI [of _ "''export SENTIEON_LICENSE='' @ s @ '' &&''"]) simp
  from assms show ?thesis
    using loop str
    by (auto simp: license_export_def Let_def split: if_splits option.splits pyval.splits atom.splits)
qed

lemma literal_tokens:
  "\<not> sublist ''--cosmic'' ''sentieon''" "\<not> sublist ''--dbsnp'' ''sentieon''"
  "\<not> sublist ''--cosmic'' ''driver''" "\<not> sublist ''--dbsnp'' ''driver''"
  "\<not> sublist ''--cosmic'' ''-t''" "\<not> sublist ''--dbsnp'' ''-t''"
  "\<not> sublist ''--cosmic'' ''1''" "\<not> sublist ''--dbsnp'' ''1''"
  "\<not> sublist ''--cosmic'' ''-r''" "\<not> sublist ''--dbsnp'' ''-r''"
  "\<not> sublist ''--cosmic'' ''-i''" "\<not> sublist ''--dbsnp'' ''-i''"
  "\<not> sublist ''--cosmic'' ''--algo''" "\<not> sublist ''--dbsnp'' ''--algo''"
  "\<not> sublist ''--cosmic'' ''TNhaplotyper''" "\<not> sublist ''--dbsnp'' ''TNhaplotyper''"
  "\<not> sublist ''--cosmic'' ''--tumor_sample''" "\<not> sublist ''--dbsnp'' ''--tumor_sample''"
  "\<not> sublist ''--cosmic'' ''--normal_sample''" "\<not> sublist ''--dbsnp'' ''--normal_sample''"
  "\<not> sublist ''--cosmic'' ''--dbsnp''" "\<not> sublist ''--dbsnp'' ''--cosmic''"
  by (simp_all add: sublist_Cons_right)

lemma flag_in_tnhaplotyper_cmd:
  assumes "u = ''--cosmic'' \<or> u = ''--dbsnp''"
    and "license = l @ '' ''"
  shows "sublist u (tnhaplotyper_cmd license ref_file p interval dbsnp cosmic tx) \<longleftrightarrow>
           (\<exists>x\<in>set [license, ref_file, py_str (tumor_bam p), py_str (normal_bam p), interval,
                      py_str (tumor_name p), py_str (normal_name p), tx, dbsnp, cosmic].
              sublist u x)"
proof -
  have u: "CHR '' '' \<notin> set u" "u \<noteq> []"
    using assms(1) by auto
  have lit: "\<not> sublist u ''sentieon''" "\<not> sublist u ''driver''" "\<not> sublist u ''-t''"
    "\<not> sublist u ''1''" "\<not> sublist u ''-r''" "\<not> sublist u ''-i''" "\<not> sublist u ''--algo''"
    "\<not> sublist u ''TNhaplotyper''" "\<not> sublist u ''--tumor_sample''"
    "\<not> sublist u ''--normal_sample''"
    using assms(1) literal_tokens by blast+
  have "sublist u (license @ ''sentieon'') \<longleftrightarrow> sublist u l \<or> sublist u ''sentieon''"
    using sublist_across_space [OF u, of l "''sentieon''"] assms(2) by simp
  moreover have "sublist u license \<longleftrightarrow> sublist u l \<or> sublist u []"
    using sublist_across_space [OF u, of l "[]"] assms(2) by simp
  ultimately have lic: "sublist u (license @ ''sentieon'') \<longleftrightarrow> sublist u license"
    using lit(1) u(2) by simp
  show ?thesis
    unfolding tnhaplotyper_cmd_tokens sublist_join_space [OF u]
    using lic lit by (simp del: append.simps) blast
qed

text \<open>
  C7 (as amended). For a call of \<^verbatim>\<open>run_tnhaplotyper\<close> that builds a command: a key
  \<^verbatim>\<open>dbsnp\<close> with value \<open>v\<close> puts \<^verbatim>\<open>--dbsnp \<close> and \<^verbatim>\<open>str(v)\<close> into the command, a key
  \<^verbatim>\<open>cosmic\<close> likewise \<^verbatim>\<open>--cosmic \<close> and \<^verbatim>\<open>str(v)\<close>. Without the key \<^verbatim>\<open>cosmic\<close> the
  command contains \<^verbatim>\<open>--cosmic\<close> exactly when one of the other interpolated arguments
  does (license fragment, reference, BAM paths, interval fragment, sample names,
  temporary output path, dbsnp value); symmetrically for \<^verbatim>\<open>--dbsnp\<close> without the key
  \<^verbatim>\<open>dbsnp\<close>.
\<close>

theorem tnhaplotyper_flags:
  assumes "run_tnhaplotyper env align_bams (item0 # rest) ref_file assoc_files region0 out_file0 w = (r, w')"
    and "runs w' = runs w @ [(cmd, label)]"
    and "default_out_file env align_bams out_file0 = Inr out"
    and "get_paired_bams env align_bams (item0 # rest) = Some p"
    and "license_export env item0 = Inr license"
    and "others = [license, ref_file, py_str (tumor_bam p), py_str (normal_bam p),
                   get_interval env w (merge_overlaps env (get_variant_regions env item0) item0)
                     region0 out (item0 # rest),
                   py_str (tumor_name p), py_str (normal_name p), tx_file env item0 out]"
  shows "(\<forall>v. assoc_files ''dbsnp'' = Some v \<longrightarrow> sublist (''--dbsnp '' @ py_str v) cmd)
       \<and> (\<forall>v. assoc_files ''cosmic'' = Some v \<longrightarrow> sublist (''--cosmic '' @ py_str v) cmd)
       \<and> (assoc_files ''cosmic'' = None \<longrightarrow>
            (sublist ''--cosmic'' cmd \<longleftrightarrow>
              (\<exists>x\<in>set (others @ (case assoc_files ''dbsnp'' of Some v \<Rightarrow> [py_str v] | None \<Rightarrow> [])).
                 sublist ''--cosmic'' x)))
       \<and> (assoc_files ''dbsnp'' = None \<longrightarrow>
            (sublist ''--dbsnp'' cmd \<longleftrightarrow>
              (\<exists>x\<in>set (others @ (case assoc_files ''cosmic'' of Some v \<Rightarrow> [py_str v] | None \<Rightarrow> [])).
                 sublist ''--dbsnp'' x)))"
proof -
  let ?interval = "get_interval env w (merge_overlaps env (get_variant_regions env item0) item0)
                     region0 out (item0 # rest)"
  let ?dbsnp = "assoc_flag ''--dbsnp'' ''dbsnp'' assoc_files"
  let ?cosmic = "assoc_flag ''--cosmic'' ''cosmic'' assoc_files"
  from tnhaplotyper_run_command [OF assms(1-3)] assms(4,5)
  have cmd: "cmd = tnhaplotyper_cmd license ref_file p ?interval ?dbsnp ?cosmic (tx_file env item0 out)"
    by auto
  obtain l where l: "license = l @ '' ''"
    using license_export_ends_with_space [OF assms(5)] by blast
  have sp: "CHR '' '' \<notin> set ''--cosmic''" "''--cosmic'' \<noteq> []"
           "CHR '' '' \<notin> set ''--dbsnp''" "''--dbsnp'' \<noteq> []"
    by simp_all
  have in_flag: "sublist u (flag @ '' '' @ x) \<longleftrightarrow> sublist u x"
    if "(u = ''--cosmic'' \<and> flag = ''--dbsnp'') \<or> (u = ''--dbsnp'' \<and> flag = ''--cosmic'')" for u flag x
    using that sublist_across_space [OF sp(1,2), of "''--dbsnp''" x]
      sublist_across_space [OF sp(3,4), of "''--cosmic''" x] literal_tokens(21,22)
    by auto
  have a: "sublist (''--dbsnp '' @ py_str v) cmd" if "assoc_files ''dbsnp'' = Some v" for v
    using dbsnp_flag_emitted [where f = run_tnhaplotyper, OF _ assms(1,2) that] by simp
  have b: "sublist (''--cosmic '' @ py_str v) cmd" if "assoc_files ''cosmic'' = Some v" for v
    using cosmic_flag_emitted [OF assms(1,2) that] .
  have c: "sublist ''--cosmic'' cmd \<longleftrightarrow>
             (\<exists>x\<in>set (others @ (case assoc_files ''dbsnp'' of Some v \<Rightarrow> [py_str v] | None \<Rightarrow> [])).
                sublist ''--cosmic'' x)"
    if none: "assoc_files ''cosmic'' = None"
  proof -
    have 1: "?cosmic = []" using none by (simp add: assoc_flag_def)
    have 2: "sublist ''--cosmic'' ?dbsnp \<longleftrightarrow>
               (\<exists>x\<in>set (case assoc_files ''dbsnp'' of Some v \<Rightarrow> [py_str v] | None \<Rightarrow> []).
                  sublist ''--cosmic'' x)"
    proof (cases "assoc_files ''dbsnp''")
      case None
      then show ?thesis by (simp add: assoc_flag_def)
    next
      case (Some v)
      then have "?dbsnp = ''--dbsnp'' @ '' '' @ py_str v" by (simp add: assoc_flag_def)
      with in_flag [of "''--cosmic''" "''--dbsnp''" "py_str v"] Some show ?thesis by simp
    qed
    show ?thesis
      unfolding cmd flag_in_tnhaplotyper_cmd [OF disjI1 [OF refl] l] 1 assms(6)
      using 2 by (auto simp del: append.simps)
  qed
  have d: "sublist ''--dbsnp'' cmd \<longleftrightarrow>
             (\<exists>x\<in>set (others @ (case assoc_files ''cosmic'' of Some v \<Rightarrow> [py_str v] | None \<Rightarrow> [])).
                sublist ''--dbsnp'' x)"
    if none: "assoc_files ''dbsnp'' = None"
  proof -
    have 1: "?dbsnp = []" using none by (simp add: assoc_flag_def)
    have 2: "sublist ''--dbsnp'' ?cosmic \<longleftrightarrow>
               (\<exists>x\<in>set (case assoc_files ''cosmic'' of Some v \<Rightarrow> [py_str v] | None \<Rightarrow> []).
                  sublist ''--dbsnp'' x)"
    proof (cases "assoc_files ''cosmic''")
      case None
      then show ?thesis by (simp add: assoc_flag_def)
    next
      case (Some v)
      then have "?cosmic = ''--cosmic'' @ '' '' @ py_str v" by (simp add: assoc_flag_def)
      with in_flag [of "''--dbsnp''" "''--cosmic''" "py_str v"] Some show ?thesis by simp
    qed
    show ?thesis
      unfolding cmd flag_in_tnhaplotyper_cmd [OF disjI2 [OF refl] l] 1 assms(6)
      using 2 by (auto simp del: append.simps)
  qed
  show ?thesis using a b c d by blast
qed

theorem tnhaplotyper_flags_witness:
  "run_tnhaplotyper (stub_env (Some tumor_normal) 0 [''/tmp/tx/d/t-variants.vcf.gz'' \<mapsto> 4096])
     [''/d/t.bam'', ''/d/n.bam''] [sample (Atom (AStr ''lic:8990''))] ''/ref.fa''
     [''dbsnp'' \<mapsto> AStr ''/x/dbsnp.vcf''] (RStr ''chr1'') None example_world
    = (Inr ''/d/t-variants.vcf.gz'',
       \<lparr>files = [''/d/t-variants.vcf.gz'' \<mapsto> 4096],
        runs = [(tnhaplotyper_cmd example_license ''/ref.fa'' tumor_normal ''--interval chr1''
                   (assoc_flag ''--dbsnp'' ''dbsnp'' [''dbsnp'' \<mapsto> AStr ''/x/dbsnp.vcf''])
                   (assoc_flag ''--cosmic'' ''cosmic'' [''dbsnp'' \<mapsto> AStr ''/x/dbsnp.vcf''])
                   ''/tmp/tx/d/t-variants.vcf.gz'',
                 ''Sentieon TNhaplotyper'')]\<rparr>)
   \<and> [''dbsnp'' \<mapsto> AStr ''/x/dbsnp.vcf''] ''dbsnp'' = Some (AStr ''/x/dbsnp.vcf'')
   \<and> [''dbsnp'' \<mapsto> AStr ''/x/dbsnp.vcf''] ''cosmic'' = None
   \<and> sublist ''--dbsnp /x/dbsnp.vcf''
        (tnhaplotyper_cmd example_license ''/ref.fa'' tumor_normal ''--interval chr1''
           (assoc_flag ''--dbsnp'' ''dbsnp'' [''dbsnp'' \<mapsto> AStr ''/x/dbsnp.vcf''])
           (assoc_flag ''--cosmic'' ''cosmic'' [''dbsnp'' \<mapsto> AStr ''/x/dbsnp.vcf''])
           ''/tmp/tx/d/t-variants.vcf.gz'')
   \<and> \<not> sublist ''--cosmic''
        (tnhaplotyper_cmd example_license ''/ref.fa'' tumor_normal ''--interval chr1''
           (assoc_flag ''--dbsnp'' ''dbsnp'' [''dbsnp'' \<mapsto> AStr ''/x/dbsnp.vcf''])
           (assoc_flag ''--cosmic'' ''cosmic'' [''dbsnp'' \<mapsto> AStr ''/x/dbsnp.vcf''])
           ''/tmp/tx/d/t-variants.vcf.gz'')"
proof -
  let ?A = "[''dbsnp'' \<mapsto> AStr ''/x/dbsnp.vcf'']"
  let ?E = "stub_env (Some tumor_normal) 0 [''/tmp/tx/d/t-variants.vcf.gz'' \<mapsto> 4096]"
  let ?item = "sample (Atom (AStr ''lic:8990''))"
  let ?cmd = "tnhaplotyper_cmd example_license ''/ref.fa'' tumor_normal ''--interval chr1''
           (assoc_flag ''--dbsnp'' ''dbsnp'' ?A) (assoc_flag ''--cosmic'' ''cosmic'' ?A)
           ''/tmp/tx/d/t-variants.vcf.gz''"
  let ?w' = "\<lparr>files = [''/d/t-variants.vcf.gz'' \<mapsto> 4096], runs = [(?cmd, ''Sentieon TNhaplotyper'')]\<rparr>"
  let ?others = "[example_license, ''/ref.fa'', ''/d/t.bam'', ''/d/n.bam'', ''--interval chr1'',
                  ''T1'', ''N1'', ''/tmp/tx/d/t-variants.vcf.gz'']"
  have h1: "run_tnhaplotyper ?E [''/d/t.bam'', ''/d/n.bam''] (?item # []) ''/ref.fa'' ?A
              (RStr ''chr1'') None example_world = (Inr ''/d/t-variants.vcf.gz'', ?w')"
    by (rule example_tnhaplotyper_run)
  have h2: "runs ?w' = runs example_world @ [(?cmd, ''Sentieon TNhaplotyper'')]"
    by (simp add: example_world_def)
  have h3: "default_out_file ?E [''/d/t.bam'', ''/d/n.bam''] None = Inr ''/d/t-variants.vcf.gz''"
    by (simp add: default_out_file_def stub_env_sel)
  have h4: "get_paired_bams ?E [''/d/t.bam'', ''/d/n.bam''] (?item # []) = Some tumor_normal"
    by (simp add: stub_env_sel)
  have h5: "license_export ?E ?item = Inr example_license"
    by (rule example_license_export)
  have h6: "?others = [example_license, ''/ref.fa'', py_str (tumor_bam tumor_normal),
              py_str (normal_bam tumor_normal),
              get_interval ?E example_world (merge_overlaps ?E (get_variant_regions ?E ?item) ?item)
                (RStr ''chr1'') ''/d/t-variants.vcf.gz'' (?item # []),
              py_str (tumor_name tumor_normal), py_str (normal_name tumor_normal),
              tx_file ?E ?item ''/d/t-variants.vcf.gz'']"
    by (simp add: tumor_normal_def get_interval_def isfile_def example_world_def stub_env_sel
          stub_region_to_gatk_str)
  have d: "?A ''dbsnp'' = Some (AStr ''/x/dbsnp.vcf'')" and c: "?A ''cosmic'' = None"
    by simp_all
  note inst = tnhaplotyper_flags
    [where env = ?E and align_bams = "[''/d/t.bam'', ''/d/n.bam'']" and ?item0.0 = ?item
       and rest = "[]" and ref_file = "''/ref.fa''" and assoc_files = ?A
       and ?region0.0 = "RStr ''chr1''" and ?out_file0.0 = None and w = example_world
       and r = "Inr ''/d/t-variants.vcf.gz''" and w' = ?w' and cmd = ?cmd
       and label = "''Sentieon TNhaplotyper''" and out = "''/d/t-variants.vcf.gz''"
       and p = tumor_normal and license = example_license and others = ?others,
     OF h1 h2 h3 h4 h5 h6]
  from inst d have f1: "sublist (''--dbsnp '' @ py_str (AStr ''/x/dbsnp.vcf'')) ?cmd"
    by blast
  from inst c have f2: "sublist ''--cosmic'' ?cmd \<longleftrightarrow>
      (\<exists>x\<in>set (?others @ (case ?A ''dbsnp'' of Some v \<Rightarrow> [py_str v] | None \<Rightarrow> [])).
         sublist ''--cosmic'' x)"
    by blast
  have f3: "\<not> (\<exists>x\<in>set (?others @ (case ?A ''dbsnp'' of Some v \<Rightarrow> [py_str v] | None \<Rightarrow> [])).
         sublist ''--cosmic'' x)"
    by (simp add: example_license_def sublist_Cons_right)
  from f1 have f1a: "sublist ''--dbsnp /x/dbsnp.vcf'' ?cmd" by simp
  from f2 f3 have f4: "\<not> sublist ''--cosmic'' ?cmd" by blast
  show ?thesis using h1 d c f1a f4 by blast
qed

theorem tnhaplotyper_flags_counterexample:
  "[''dbsnp'' \<mapsto> AStr ''/x/--cosmic.vcf''] ''dbsnp'' = Some (AStr ''/x/--cosmic.vcf'')
   \<and> [''dbsnp'' \<mapsto> AStr ''/x/--cosmic.vcf''] ''cosmic'' = None
   \<and> runs (snd (run_tnhaplotyper (stub_env (Some tumor_normal) 0 [''/tmp/tx/d/t-variants.vcf.gz'' \<mapsto> 4096])
        [''/d/t.bam'', ''/d/n.bam''] [sample (Atom (AStr ''lic:8990''))] ''/ref.fa''
        [''dbsnp'' \<mapsto> AStr ''/x/--cosmic.vcf''] (RStr ''chr1'') None example_world))
      = [(''export SENTIEON_LICENSE=lic:8990 && sentieon driver -t 1 -r /ref.fa ''
          @ ''-i /d/t.bam -i /d/n.bam --interval chr1 --algo TNhaplotyper ''
          @ ''--tumor_sample T1 --normal_sample N1 --dbsnp /x/--cosmic.vcf  ''
          @ ''/tmp/tx/d/t-variants.vcf.gz'', ''Sentieon TNhaplotyper'')]
   \<and> sublist ''--cosmic''
        (''export SENTIEON_LICENSE=lic:8990 && sentieon driver -t 1 -r /ref.fa ''
          @ ''-i /d/t.bam -i /d/n.bam --interval chr1 --algo TNhaplotyper ''
          @ ''--tumor_sample T1 --normal_sample N1 --dbsnp /x/--cosmic.vcf  ''
          @ ''/tmp/tx/d/t-variants.vcf.gz'')"
proof -
  have r: "runs (snd (run_tnhaplotyper (stub_env (Some tumor_normal) 0 [''/tmp/tx/d/t-variants.vcf.gz'' \<mapsto> 4096])
        [''/d/t.bam'', ''/d/n.bam''] [sample (Atom (AStr ''lic:8990''))] ''/ref.fa''
        [''dbsnp'' \<mapsto> AStr ''/x/--cosmic.vcf''] (RStr ''chr1'') None example_world))
      = [(''export SENTIEON_LICENSE=lic:8990 && sentieon driver -t 1 -r /ref.fa ''
          @ ''-i /d/t.bam -i /d/n.bam --interval chr1 --algo TNhaplotyper ''
          @ ''--tumor_sample T1 --normal_sample N1 --dbsnp /x/--cosmic.vcf  ''
          @ ''/tmp/tx/d/t-variants.vcf.gz'', ''Sentieon TNhaplotyper'')]"
    unfolding example_tnhaplotyper_run snd_conv example_tnhaplotyper_cmd_value by simp
  have s': "sublist ''--cosmic''
        (''export SENTIEON_LICENSE=lic:8990 && sentieon driver -t 1 -r /ref.fa ''
          @ ''-i /d/t.bam -i /d/n.bam --interval chr1 --algo TNhaplotyper ''
          @ ''--tumor_sample T1 --normal_sample N1 --dbsnp /x/--cosmic.vcf  ''
          @ ''/tmp/tx/d/t-variants.vcf.gz'')"
    by (simp add: sublist_Cons_right)
  show ?thesis using r s' by simp
qed

end
